theory Spec2Isabelle
  imports Complex_Main
begin

section \<open>Float values\<close>

text \<open>
  The backtester of \<^verbatim>\<open>analysis/backtests.py\<close> computes with Python and numpy floats.
  They are modelled as exact reals extended with the three IEEE specials, so that a
  division by zero is what numpy makes of it (an infinity or NaN, with a warning and no
  exception) and not HOL's \<open>x / 0 = 0\<close>. Rounding, overflow, underflow and the sign of
  zero are not modelled: finite arithmetic is exact, and a zero divisor counts as
  \<open>+0.0\<close>. Where a double rounds (\<open>10000 / 139 * 139\<close> is not 10000 in doubles) or
  underflows to zero, the code leaves this model.
\<close>

datatype fl = Fin real | PInf | NInf | NaN

fun fneg :: "fl \<Rightarrow> fl" where
  "fneg (Fin a) = Fin (- a)"
| "fneg PInf = NInf"
| "fneg NInf = PInf"
| "fneg NaN = NaN"

fun fadd :: "fl \<Rightarrow> fl \<Rightarrow> fl" where
  "fadd (Fin a) (Fin b) = Fin (a + b)"
| "fadd NaN _ = NaN"
| "fadd _ NaN = NaN"
| "fadd PInf NInf = NaN"
| "fadd NInf PInf = NaN"
| "fadd PInf _ = PInf"
| "fadd _ PInf = PInf"
| "fadd NInf _ = NInf"
| "fadd _ NInf = NInf"

definition fsub :: "fl \<Rightarrow> fl \<Rightarrow> fl" where
  "fsub x y = fadd x (fneg y)"

text \<open>\<open>x > 0\<close> and \<open>x == 0\<close>; every comparison with NaN is false.\<close>

fun fgt0 :: "fl \<Rightarrow> bool" where
  "fgt0 (Fin a) = (0 < a)"
| "fgt0 PInf = True"
| "fgt0 NInf = False"
| "fgt0 NaN = False"

fun feq0 :: "fl \<Rightarrow> bool" where
  "feq0 (Fin a) = (a = 0)"
| "feq0 _ = False"

fun fmul :: "fl \<Rightarrow> fl \<Rightarrow> fl" where
  "fmul (Fin a) (Fin b) = Fin (a * b)"
| "fmul NaN _ = NaN"
| "fmul _ NaN = NaN"
| "fmul x y = (if feq0 x \<or> feq0 y then NaN else if fgt0 x = fgt0 y then PInf else NInf)"

fun fdiv :: "fl \<Rightarrow> fl \<Rightarrow> fl" where
  "fdiv (Fin a) (Fin b) =
     (if b \<noteq> 0 then Fin (a / b) else if 0 < a then PInf else if a < 0 then NInf else NaN)"
| "fdiv NaN _ = NaN"
| "fdiv _ NaN = NaN"
| "fdiv (Fin a) _ = Fin 0"
| "fdiv x (Fin b) = (if fgt0 x = (0 \<le> b) then PInf else NInf)"
| "fdiv _ _ = NaN"

fun flt :: "fl \<Rightarrow> fl \<Rightarrow> bool" where
  "flt (Fin a) (Fin b) = (a < b)"
| "flt NaN _ = False"
| "flt _ NaN = False"
| "flt _ NInf = False"
| "flt NInf _ = True"
| "flt PInf _ = False"
| "flt _ PInf = True"

fun fabs :: "fl \<Rightarrow> fl" where
  "fabs (Fin a) = Fin \<bar>a\<bar>"
| "fabs NaN = NaN"
| "fabs _ = PInf"

fun fsqrt :: "fl \<Rightarrow> fl" where
  "fsqrt (Fin a) = (if a < 0 then NaN else Fin (sqrt a))"
| "fsqrt PInf = PInf"
| "fsqrt _ = NaN"

section \<open>Data\<close>

text \<open>
  One row of the frame \<open>df\<close> after \<^verbatim>\<open>df['signal'] = signals\<close> (line 58): its index
  label, its close and its signal. The code reads no other column. Signals are the
  integers the strategies produce; the loop compares them with 1 and -1 only.
\<close>

record bar =
  index :: int
  close :: real
  signal :: int

datatype trade_type = BUY | SELL

text \<open>The dictionaries appended to \<open>trades\<close> (lines 77 and 90).\<close>

record trade =
  timestamp :: int
  type :: trade_type
  price :: real
  quantity :: fl
  balance :: fl

text \<open>The dataclass \<open>BacktestResult\<close>; the equity series is kept as its values, its
  index being that of the frame.\<close>

record BacktestResult =
  total_return :: fl
  sharpe_ratio :: fl
  max_drawdown :: fl
  win_rate :: real
  total_trades :: nat
  final_balance :: fl
  equity_curve :: "fl list"
  trades :: "trade list"

text \<open>The local variables of \<open>run_backtest\<close> that the loop updates.\<close>

record sim =
  balance :: fl
  position :: fl
  trades :: "trade list"
  equity_curve :: "fl list"

datatype error = IndexError | ValueError | ZeroDivisionError

section \<open>The simulation loop\<close>

text \<open>Lines 70 to 98: the trade, if any, of iteration \<open>i\<close>.\<close>

definition execute_trades :: "real \<Rightarrow> real \<Rightarrow> bar list \<Rightarrow> sim \<Rightarrow> nat \<Rightarrow> sim" where
  "execute_trades commission position_size df st i =
     (let current_price = Fin (close (df ! i));
          prev_signal = signal (df ! (i - 1))
      in if prev_signal = 1 \<and> feq0 (position st) then
           (let trade_amount = fmul (sim.balance st) (Fin position_size);
                position' = fdiv trade_amount current_price;
                commission_cost = fmul trade_amount (Fin commission);
                balance' = fsub (sim.balance st) (fadd trade_amount commission_cost)
            in st\<lparr>sim.balance := balance', position := position',
                    sim.trades := sim.trades st @
                      [\<lparr>timestamp = index (df ! i), type = BUY, price = close (df ! i),
                        quantity = position', balance = balance'\<rparr>]\<rparr>)
         else if prev_signal = - 1 \<and> fgt0 (position st) then
           (let trade_value = fmul (position st) current_price;
                commission_cost = fmul trade_value (Fin commission);
                balance' = fadd (sim.balance st) (fsub trade_value commission_cost)
            in st\<lparr>sim.balance := balance', position := Fin 0,
                    sim.trades := sim.trades st @
                      [\<lparr>timestamp = index (df ! i), type = SELL, price = close (df ! i),
                        quantity = position st, balance = balance'\<rparr>]\<rparr>)
         else st)"

text \<open>Lines 67 to 102: one iteration, the trade and then the equity point.\<close>

definition loop_body :: "real \<Rightarrow> real \<Rightarrow> bar list \<Rightarrow> sim \<Rightarrow> nat \<Rightarrow> sim" where
  "loop_body commission position_size df st i =
     (let current_price = Fin (close (df ! i));
          st' = execute_trades commission position_size df st i;
          current_equity = fadd (sim.balance st')
            (if fgt0 (position st') then fmul (position st') current_price else Fin 0)
      in st'\<lparr>sim.equity_curve := sim.equity_curve st' @ [current_equity]\<rparr>)"

text \<open>Lines 61 to 64.\<close>

definition init_sim :: "real \<Rightarrow> sim" where
  "init_sim initial_balance =
     \<lparr>balance = Fin initial_balance, position = Fin 0, trades = [],
      equity_curve = [Fin initial_balance]\<rparr>"

text \<open>The state after the iterations \<open>1, \<dots>, n - 1\<close>; the whole loop of line 66 is
  \<open>n = len(df)\<close>. Every index read is in range, since \<open>1 \<le> i < len(df)\<close>.\<close>

definition sim_upto :: "real \<Rightarrow> real \<Rightarrow> real \<Rightarrow> bar list \<Rightarrow> nat \<Rightarrow> sim" where
  "sim_upto initial_balance commission position_size df n =
     foldl (loop_body commission position_size df) (init_sim initial_balance) [1..<n]"

definition simulate :: "real \<Rightarrow> real \<Rightarrow> real \<Rightarrow> bar list \<Rightarrow> sim" where
  "simulate initial_balance commission position_size df =
     sim_upto initial_balance commission position_size df (length df)"

text \<open>Lines 104 to 110. \<^verbatim>\<open>df.iloc[-1]\<close> raises IndexError on an empty frame, and
  \<^verbatim>\<open>equity_curve[-1] = balance\<close> on an empty list.\<close>

definition close_open_position :: "real \<Rightarrow> bar list \<Rightarrow> sim \<Rightarrow> error + sim" where
  "close_open_position commission df st =
     (if fgt0 (position st) then
        (if df = [] \<or> sim.equity_curve st = [] then Inl IndexError
         else
           (let final_price = Fin (close (last df));
                trade_value = fmul (position st) final_price;
                commission_cost = fmul trade_value (Fin commission);
                balance' = fadd (sim.balance st) (fsub trade_value commission_cost)
            in Inr (st\<lparr>sim.balance := balance',
                        sim.equity_curve :=
                          (sim.equity_curve st)[length (sim.equity_curve st) - 1 := balance']\<rparr>)))
      else Inr st)"

section \<open>Metrics\<close>

text \<open>The pandas operations of lines 113 to 128, on the values of a series.
  \<^verbatim>\<open>pct_change\<close> gives NaN at the first point and \<open>x\<^sub>i / x\<^sub>i\<^sub>-\<^sub>1 - 1\<close> after it (without the
  forward fill of missing values that older pandas versions apply first);
  \<^verbatim>\<open>dropna\<close> removes the NaN entries and keeps the infinite ones.\<close>

definition pct_change :: "fl list \<Rightarrow> fl list" where
  "pct_change xs =
     (if xs = [] then []
      else NaN # map (\<lambda>i. fsub (fdiv (xs ! i) (xs ! (i - 1))) (Fin 1)) [1..<length xs])"

definition dropna :: "fl list \<Rightarrow> fl list" where
  "dropna xs = filter (\<lambda>x. x \<noteq> NaN) xs"

definition fsum :: "fl list \<Rightarrow> fl" where
  "fsum xs = foldl fadd (Fin 0) xs"

text \<open>\<^verbatim>\<open>Series.mean\<close> and \<^verbatim>\<open>Series.std\<close> (sample deviation, \<open>ddof = 1\<close>) of a series
  without NaN entries: the sum over the count, and NaN for the deviation of fewer than two
  values.\<close>

definition mean :: "fl list \<Rightarrow> fl" where
  "mean xs = fdiv (fsum xs) (Fin (real (length xs)))"

definition std :: "fl list \<Rightarrow> fl" where
  "std xs =
     (if length xs \<le> 1 then NaN
      else fsqrt (fdiv (fsum (map (\<lambda>x. fmul (fsub (mean xs) x) (fsub (mean xs) x)) xs))
                       (Fin (real (length xs - 1)))))"

text \<open>Lines 119 to 122.\<close>

definition sharpe :: "fl list \<Rightarrow> fl" where
  "sharpe returns =
     (if length returns > 0 \<and> fgt0 (std returns)
      then fmul (fdiv (mean returns) (std returns)) (Fin (sqrt 252))
      else Fin 0)"

text \<open>\<^verbatim>\<open>cumprod\<close>, and \<^verbatim>\<open>expanding().max()\<close>: the window functions of
  pandas first replace the infinite entries by NaN, and the result is the largest value so
  far that is not NaN (NaN while there is none).\<close>

fun cumprod_from :: "fl \<Rightarrow> fl list \<Rightarrow> fl list" where
  "cumprod_from acc [] = []"
| "cumprod_from acc (x # xs) = fmul acc x # cumprod_from (fmul acc x) xs"

definition cumprod :: "fl list \<Rightarrow> fl list" where
  "cumprod xs = cumprod_from (Fin 1) xs"

definition fmax_skipna :: "fl \<Rightarrow> fl \<Rightarrow> fl" where
  "fmax_skipna m x = (if m = NaN then x else if x = NaN then m else if flt m x then x else m)"

definition fmin_skipna :: "fl \<Rightarrow> fl \<Rightarrow> fl" where
  "fmin_skipna m x = (if m = NaN then x else if x = NaN then m else if flt x m then x else m)"

fun expanding_max_from :: "fl \<Rightarrow> fl list \<Rightarrow> fl list" where
  "expanding_max_from m [] = []"
| "expanding_max_from m (x # xs) = fmax_skipna m x # expanding_max_from (fmax_skipna m x) xs"

definition inf_to_nan :: "fl \<Rightarrow> fl" where
  "inf_to_nan x = (if x = PInf \<or> x = NInf then NaN else x)"

definition expanding_max :: "fl list \<Rightarrow> fl list" where
  "expanding_max xs = expanding_max_from NaN (map inf_to_nan xs)"

text \<open>\<^verbatim>\<open>Series.min\<close> skips NaN entries and is NaN when nothing is left, as on the
  empty series.\<close>

definition series_min :: "fl list \<Rightarrow> fl" where
  "series_min xs = foldl fmin_skipna NaN xs"

text \<open>Lines 125 to 128.\<close>

definition drawdown_series :: "fl list \<Rightarrow> fl list" where
  "drawdown_series returns =
     (let cumulative = cumprod (map (\<lambda>r. fadd (Fin 1) r) returns);
          running_max = expanding_max cumulative
      in map (\<lambda>(c, m). fdiv (fsub c m) m) (zip cumulative running_max))"

definition max_drawdown_of :: "fl list \<Rightarrow> fl" where
  "max_drawdown_of returns = fmul (fabs (series_min (drawdown_series returns))) (Fin 100)"

text \<open>Lines 131 to 154. Every Buy row, in the order of the log, takes the first Sell row
  whose timestamp is larger than its own.\<close>

definition matching_sells :: "trade list \<Rightarrow> trade \<Rightarrow> trade list" where
  "matching_sells sell_trades buy = filter (\<lambda>s. timestamp buy < timestamp s) sell_trades"

definition profit :: "trade \<Rightarrow> trade \<Rightarrow> fl" where
  "profit buy sell = fdiv (Fin (price sell - price buy)) (Fin (price buy))"

definition profits_of :: "trade list \<Rightarrow> fl list" where
  "profits_of trades_df =
     (let buy_trades = filter (\<lambda>t. type t = BUY) trades_df;
          sell_trades = filter (\<lambda>t. type t = SELL) trades_df
      in concat (map (\<lambda>buy. case matching_sells sell_trades buy of
                               [] \<Rightarrow> []
                             | sell # _ \<Rightarrow> [profit buy sell]) buy_trades))"

definition win_rate_of :: "trade list \<Rightarrow> real" where
  "win_rate_of trades_df =
     (if length trades_df > 0 then
        (if length (filter (\<lambda>t. type t = BUY) trades_df) > 0
            \<and> length (filter (\<lambda>t. type t = SELL) trades_df) > 0 then
           (let profits = profits_of trades_df
            in if profits \<noteq> []
               then real (length (filter fgt0 profits)) / real (length profits) * 100
               else 0)
         else 0)
      else 0)"

section \<open>run_backtest\<close>

text \<open>
  The balance starts as the Python float \<open>initial_balance\<close> and stays a Python float
  through every Buy, whose amounts are products of Python floats. A Sell and the forced
  close add a product with the numpy close to it and make it a numpy float. The position
  is not changed by the forced close, so that one ran exactly when the position is above
  zero at the end.
\<close>

definition balance_is_python :: "sim \<Rightarrow> bool" where
  "balance_is_python st =
     (filter (\<lambda>t. type t = SELL) (sim.trades st) = [] \<and> \<not> fgt0 (position st))"

text \<open>
  \<open>run_backtest\<close> for a backtester built with \<open>initial_balance\<close> and \<open>commission\<close>,
  on the frame with its signal column. The function checks none of its arguments. After
  the loop two statements can raise: the construction of the equity series (line 113)
  needs as many values as the frame has rows, and the total return (line 116) divides the
  balance by the initial balance, which is Python's division, raising ZeroDivisionError on
  a zero divisor, as long as the balance is a Python float. Every other division has a
  numpy operand and follows the float arithmetic above.
\<close>

definition run_backtest :: "real \<Rightarrow> real \<Rightarrow> bar list \<Rightarrow> real \<Rightarrow> error + BacktestResult" where
  "run_backtest initial_balance commission df position_size =
     (case close_open_position commission df
             (simulate initial_balance commission position_size df) of
        Inl e \<Rightarrow> Inl e
      | Inr st \<Rightarrow>
          if length (sim.equity_curve st) \<noteq> length df then Inl ValueError
          else if initial_balance = 0 \<and> balance_is_python st then Inl ZeroDivisionError
          else
            (let returns = dropna (pct_change (sim.equity_curve st))
             in Inr \<lparr>total_return =
                       fmul (fsub (fdiv (sim.balance st) (Fin initial_balance)) (Fin 1)) (Fin 100),
                     sharpe_ratio = sharpe returns,
                     max_drawdown = max_drawdown_of returns,
                     win_rate = win_rate_of (sim.trades st),
                     total_trades = length (sim.trades st),
                     final_balance = sim.balance st,
                     equity_curve = sim.equity_curve st,
                     trades = sim.trades st\<rparr>))"

text \<open>The trades that iteration \<open>i\<close> appends to the log.\<close>

definition trades_at :: "real \<Rightarrow> real \<Rightarrow> real \<Rightarrow> bar list \<Rightarrow> nat \<Rightarrow> trade list" where
  "trades_at ib c ps df i =
     drop (length (sim.trades (sim_upto ib c ps df i))) (sim.trades (sim_upto ib c ps df (Suc i)))"

text \<open>The position that a log leaves open: the quantity of its last entry when that is a
  Buy, zero after a Sell and on the empty log.\<close>

definition open_quantity :: "trade list \<Rightarrow> fl" where
  "open_quantity ts =
     (if ts = [] then Fin 0 else if type (last ts) = BUY then quantity (last ts) else Fin 0)"



text \<open>The maximum drawdown of a finite return series, as its description words it: the
  cumulative product of \<open>1 + r\<close>, its running maximum, the drawdown at each point, and
  the absolute value of the least drawdown, times 100.\<close>

definition cumulative :: "real list \<Rightarrow> nat \<Rightarrow> real" where
  "cumulative rs i = prod_list (map (\<lambda>r. 1 + r) (take (Suc i) rs))"

definition running_max :: "real list \<Rightarrow> nat \<Rightarrow> real" where
  "running_max rs i = Max (cumulative rs ` {..i})"

definition drawdown_at :: "real list \<Rightarrow> nat \<Rightarrow> real" where
  "drawdown_at rs i = (cumulative rs i - running_max rs i) / running_max rs i"

definition spec_max_drawdown :: "real list \<Rightarrow> real" where
  "spec_max_drawdown rs = \<bar>Min (drawdown_at rs ` {..<length rs})\<bar> * 100"

text \<open>The pairs whose profits lines 140 to 145 collect: \<open>profits_of\<close> is the list of
  their profits.\<close>

definition matched_pairs :: "trade list \<Rightarrow> (trade \<times> trade) list" where
  "matched_pairs trades_df =
     (let buy_trades = filter (\<lambda>t. type t = BUY) trades_df;
          sell_trades = filter (\<lambda>t. type t = SELL) trades_df
      in concat (map (\<lambda>buy. case matching_sells sell_trades buy of
                               [] \<Rightarrow> []
                             | sell # _ \<Rightarrow> [(buy, sell)]) buy_trades))"

text \<open>The pairing as the description of the win rate words it: the Buys are taken in the
  order of the log, and each takes the earliest Sell with a later timestamp among those
  not yet matched, which is then matched for good.\<close>

fun spec_pairs :: "trade list \<Rightarrow> trade list \<Rightarrow> (trade \<times> trade) list" where
  "spec_pairs [] sells = []"
| "spec_pairs (b # bs) sells =
     (case find (\<lambda>s. timestamp b < timestamp s) sells of
        None \<Rightarrow> spec_pairs bs sells
      | Some s \<Rightarrow> (b, s) # spec_pairs bs (remove1 s sells))"

definition spec_win_rate :: "trade list \<Rightarrow> real" where
  "spec_win_rate ts =
     (let pairs = spec_pairs (filter (\<lambda>t. type t = BUY) ts) (filter (\<lambda>t. type t = SELL) ts)
      in if pairs = [] then 0
         else real (length (filter (\<lambda>(b, s). fgt0 (profit b s)) pairs))
                / real (length pairs) * 100)"

section \<open>Facts about the loop\<close>

lemma sim_upto_0: "sim_upto ib c ps df 0 = init_sim ib"
  by (simp add: sim_upto_def)

lemma sim_upto_1: "sim_upto ib c ps df (Suc 0) = init_sim ib"
  by (simp add: sim_upto_def)

lemma sim_upto_Suc:
  "1 \<le> n \<Longrightarrow> sim_upto ib c ps df (Suc n) = loop_body c ps df (sim_upto ib c ps df n) n"
  by (simp add: sim_upto_def)

lemmas eval_simps =
  run_backtest_def simulate_def sim_upto_def upt_conv_Cons loop_body_def execute_trades_def
  init_sim_def close_open_position_def fsub_def Let_def

lemma execute_trades_equity [simp]:
  "sim.equity_curve (execute_trades c ps df st i) = sim.equity_curve st"
  by (simp add: execute_trades_def Let_def)

lemma loop_body_fields [simp]:
  "sim.balance (loop_body c ps df st i) = sim.balance (execute_trades c ps df st i)"
  "position (loop_body c ps df st i) = position (execute_trades c ps df st i)"
  "sim.trades (loop_body c ps df st i) = sim.trades (execute_trades c ps df st i)"
  "length (sim.equity_curve (loop_body c ps df st i)) = Suc (length (sim.equity_curve st))"
  by (simp_all add: loop_body_def Let_def)

lemma length_equity_sim_upto:
  "length (sim.equity_curve (sim_upto ib c ps df n)) = max 1 n"
proof (induction n)
  case 0
  show ?case by (simp add: sim_upto_0 init_sim_def)
next
  case (Suc n)
  show ?case
  proof (cases "n = 0")
    case True
    then show ?thesis by (simp add: sim_upto_1 init_sim_def)
  next
    case False
    then have "1 \<le> n" by simp
    with Suc show ?thesis by (simp add: sim_upto_Suc)
  qed
qed

lemma simulate_Nil: "simulate ib c ps [] = init_sim ib"
  by (simp add: simulate_def sim_upto_0)

lemma close_open_position_simulate:
  "\<exists>st. close_open_position c df (simulate ib c ps df) = Inr st
        \<and> length (sim.equity_curve st) = max 1 (length df)
        \<and> sim.trades st = sim.trades (simulate ib c ps df)
        \<and> position st = position (simulate ib c ps df)"
proof (cases "df = []")
  case True
  then show ?thesis
    by (simp add: simulate_Nil close_open_position_def init_sim_def)
next
  case False
  have "sim.equity_curve (simulate ib c ps df) \<noteq> []"
    using length_equity_sim_upto [of ib c ps df "length df"]
    by (auto simp: simulate_def)
  with False show ?thesis
    using length_equity_sim_upto [of ib c ps df "length df"]
    by (simp add: close_open_position_def Let_def simulate_def)
qed

text \<open>The three outcomes of the trade step.\<close>

lemma execute_trades_buy:
  assumes "signal (df ! (i - 1)) = 1" "feq0 (position st)"
  shows "execute_trades c ps df st i =
     st\<lparr>sim.balance := fsub (sim.balance st)
            (fadd (fmul (sim.balance st) (Fin ps)) (fmul (fmul (sim.balance st) (Fin ps)) (Fin c))),
        position := fdiv (fmul (sim.balance st) (Fin ps)) (Fin (close (df ! i))),
        sim.trades := sim.trades st @
          [\<lparr>timestamp = index (df ! i), type = BUY, price = close (df ! i),
            quantity = fdiv (fmul (sim.balance st) (Fin ps)) (Fin (close (df ! i))),
            balance = fsub (sim.balance st)
              (fadd (fmul (sim.balance st) (Fin ps)) (fmul (fmul (sim.balance st) (Fin ps)) (Fin c)))\<rparr>]\<rparr>"
  using assms by (simp add: execute_trades_def Let_def)

lemma feq0_not_fgt0: "feq0 x \<Longrightarrow> \<not> fgt0 x"
  by (cases x) auto

lemma execute_trades_sell:
  assumes "signal (df ! (i - 1)) = - 1" "fgt0 (position st)"
  shows "execute_trades c ps df st i =
     st\<lparr>sim.balance := fadd (sim.balance st)
            (fsub (fmul (position st) (Fin (close (df ! i))))
                  (fmul (fmul (position st) (Fin (close (df ! i)))) (Fin c))),
        position := Fin 0,
        sim.trades := sim.trades st @
          [\<lparr>timestamp = index (df ! i), type = SELL, price = close (df ! i),
            quantity = position st,
            balance = fadd (sim.balance st)
              (fsub (fmul (position st) (Fin (close (df ! i))))
                    (fmul (fmul (position st) (Fin (close (df ! i)))) (Fin c)))\<rparr>]\<rparr>"
  using assms by (simp add: execute_trades_def Let_def)

lemma execute_trades_none:
  assumes "\<not> (signal (df ! (i - 1)) = 1 \<and> feq0 (position st))"
    "\<not> (signal (df ! (i - 1)) = - 1 \<and> fgt0 (position st))"
  shows "execute_trades c ps df st i = st"
  using assms by (auto simp add: execute_trades_def Let_def)

lemma sim_upto_Suc_fields:
  assumes "1 \<le> i"
  shows "sim.balance (sim_upto ib c ps df (Suc i)) = sim.balance (execute_trades c ps df (sim_upto ib c ps df i) i)"
    "position (sim_upto ib c ps df (Suc i)) = position (execute_trades c ps df (sim_upto ib c ps df i) i)"
    "sim.trades (sim_upto ib c ps df (Suc i)) = sim.trades (execute_trades c ps df (sim_upto ib c ps df i) i)"
  using assms by (simp_all add: sim_upto_Suc)

lemma trades_execute_prefix:
  "\<exists>ts. sim.trades (execute_trades c ps df st i) = sim.trades st @ ts"
  by (simp add: execute_trades_def Let_def)

lemma trades_sim_upto_Suc:
  "sim.trades (sim_upto ib c ps df (Suc i)) = sim.trades (sim_upto ib c ps df i) @ trades_at ib c ps df i"
proof (cases "1 \<le> i")
  case True
  obtain ts where "sim.trades (execute_trades c ps df (sim_upto ib c ps df i) i)
      = sim.trades (sim_upto ib c ps df i) @ ts"
    using trades_execute_prefix by blast
  with True show ?thesis by (simp add: trades_at_def sim_upto_Suc_fields)
next
  case False
  then have "i = 0" by simp
  then show ?thesis by (simp add: trades_at_def sim_upto_0 sim_upto_1)
qed

lemma trades_sim_upto:
  "sim.trades (sim_upto ib c ps df n) = concat (map (trades_at ib c ps df) [1..<n])"
proof (induction n)
  case 0
  show ?case by (simp add: sim_upto_0 init_sim_def)
next
  case (Suc n)
  show ?case
  proof (cases "n = 0")
    case True
    then show ?thesis by (simp add: sim_upto_1 init_sim_def)
  next
    case False
    then show ?thesis using Suc by (simp add: trades_sim_upto_Suc)
  qed
qed

text \<open>With an initial balance of zero every Buy has amount zero: the balance stays zero, no
  position above zero is opened, and no Sell is executed.\<close>

lemma sim_upto_zero_balance:
  "sim.balance (sim_upto 0 c ps df n) = Fin 0
   \<and> (position (sim_upto 0 c ps df n) = Fin 0 \<or> position (sim_upto 0 c ps df n) = NaN)
   \<and> filter (\<lambda>t. type t = SELL) (sim.trades (sim_upto 0 c ps df n)) = []"
proof (induction n)
  case 0
  show ?case by (simp add: sim_upto_0 init_sim_def)
next
  case (Suc n)
  let ?st = "sim_upto 0 c ps df n"
  have ng: "\<not> fgt0 (position ?st)" using Suc by auto
  show ?case
  proof (cases "n = 0")
    case True
    then show ?thesis by (simp add: sim_upto_1 init_sim_def)
  next
    case False
    then have n: "1 \<le> n" by simp
    show ?thesis
    proof (cases "signal (df ! (n - 1)) = 1 \<and> feq0 (position ?st)")
      case True
      then show ?thesis
        using n Suc
        by (simp add: sim_upto_Suc_fields execute_trades_buy fsub_def)
    next
      case False
      then have "execute_trades c ps df ?st n = ?st"
        using ng by (simp add: execute_trades_none)
      then show ?thesis using n Suc by (simp add: sim_upto_Suc_fields)
    qed
  qed
qed

lemma balance_is_python_zero: "balance_is_python (simulate 0 c ps df)"
  using sim_upto_zero_balance [of c ps df "length df"]
  by (auto simp add: balance_is_python_def simulate_def)

lemma run_backtest_isl: "isl (run_backtest ib c df ps) \<longleftrightarrow> df = [] \<or> ib = 0"
proof -
  obtain st where st: "close_open_position c df (simulate ib c ps df) = Inr st"
    "length (sim.equity_curve st) = max 1 (length df)"
    "sim.trades st = sim.trades (simulate ib c ps df)"
    "position st = position (simulate ib c ps df)"
    using close_open_position_simulate by blast
  have py: "ib = 0 \<Longrightarrow> balance_is_python st"
    using balance_is_python_zero [of c ps df] st(3,4) by (simp add: balance_is_python_def)
  show ?thesis
    using st(1,2) py by (cases df) (auto simp add: run_backtest_def Let_def)
qed

lemma run_backtest_Nil: "run_backtest ib c [] ps = Inl ValueError"
  by (simp add: run_backtest_def simulate_Nil close_open_position_def init_sim_def)

lemma run_backtest_zero_balance:
  assumes "df \<noteq> []"
  shows "run_backtest 0 c df ps = Inl ZeroDivisionError"
proof -
  obtain st where st: "close_open_position c df (simulate 0 c ps df) = Inr st"
    "length (sim.equity_curve st) = max 1 (length df)"
    "sim.trades st = sim.trades (simulate 0 c ps df)"
    "position st = position (simulate 0 c ps df)"
    using close_open_position_simulate by blast
  have "balance_is_python st"
    using balance_is_python_zero [of c ps df] st(3,4) by (simp add: balance_is_python_def)
  then show ?thesis
    using st(1,2) assms by (cases df) (simp_all add: run_backtest_def)
qed

lemma loop_body_cong:
  assumes "close (df ! i) = close (df' ! i)" "index (df ! i) = index (df' ! i)"
    "signal (df ! (i - 1)) = signal (df' ! (i - 1))"
  shows "loop_body c ps df st i = loop_body c ps df' st i"
  using assms by (simp add: loop_body_def execute_trades_def Let_def)

lemma sim_upto_cong:
  assumes "\<forall>j<n. close (df ! j) = close (df' ! j) \<and> index (df ! j) = index (df' ! j)"
    "\<forall>j. Suc j < n \<longrightarrow> signal (df ! j) = signal (df' ! j)"
  shows "sim_upto ib c ps df n = sim_upto ib c ps df' n"
  using assms
proof (induction n)
  case 0
  show ?case by (simp add: sim_upto_0)
next
  case (Suc n)
  show ?case
  proof (cases "n = 0")
    case True
    then show ?thesis by (simp add: sim_upto_1)
  next
    case False
    then have n: "1 \<le> n" by simp
    have ih: "sim_upto ib c ps df n = sim_upto ib c ps df' n"
      using Suc by simp
    have "signal (df ! (n - 1)) = signal (df' ! (n - 1))"
      using Suc.prems(2) n by simp
    moreover have "close (df ! n) = close (df' ! n)" "index (df ! n) = index (df' ! n)"
      using Suc.prems(1) by simp_all
    ultimately have "loop_body c ps df (sim_upto ib c ps df' n) n
        = loop_body c ps df' (sim_upto ib c ps df' n) n"
      by (rule_tac loop_body_cong) simp_all
    then show ?thesis using n ih by (simp add: sim_upto_Suc)
  qed
qed

lemma run_backtest_cong:
  assumes "length df = length df'"
    "\<forall>j<length df. close (df ! j) = close (df' ! j) \<and> index (df ! j) = index (df' ! j)"
    "\<forall>j. Suc j < length df \<longrightarrow> signal (df ! j) = signal (df' ! j)"
  shows "run_backtest ib c df ps = run_backtest ib c df' ps"
proof -
  have sim: "simulate ib c ps df = simulate ib c ps df'"
    unfolding simulate_def assms(1) [symmetric]
    using assms(2,3) by (rule sim_upto_cong)
  have nil: "(df = []) = (df' = [])" using assms(1) by auto
  have "df \<noteq> [] \<Longrightarrow> close (last df) = close (last df')"
    using assms(1,2) by (simp add: last_conv_nth nil [symmetric])
  then have "close_open_position c df (simulate ib c ps df')
      = close_open_position c df' (simulate ib c ps df')"
    using nil by (auto simp add: close_open_position_def Let_def)
  then show ?thesis
    using assms(1) by (simp add: run_backtest_def sim split: sum.splits)
qed


lemma position_sim_upto:
  "position (sim_upto ib c ps df n) = open_quantity (sim.trades (sim_upto ib c ps df n))"
proof (induction n)
  case 0
  show ?case by (simp add: sim_upto_0 init_sim_def open_quantity_def)
next
  case (Suc n)
  let ?st = "sim_upto ib c ps df n"
  show ?case
  proof (cases "n = 0")
    case True
    then show ?thesis by (simp add: sim_upto_1 init_sim_def open_quantity_def)
  next
    case False
    then have n: "1 \<le> n" by simp
    consider (buy) "signal (df ! (n - 1)) = 1" "feq0 (position ?st)"
      | (sell) "signal (df ! (n - 1)) = - 1" "fgt0 (position ?st)"
      | (none) "\<not> (signal (df ! (n - 1)) = 1 \<and> feq0 (position ?st))"
          "\<not> (signal (df ! (n - 1)) = - 1 \<and> fgt0 (position ?st))"
      by blast
    then show ?thesis
    proof cases
      case buy
      then show ?thesis
        using n by (simp add: sim_upto_Suc_fields execute_trades_buy open_quantity_def)
    next
      case sell
      then show ?thesis
        using n by (simp add: sim_upto_Suc_fields execute_trades_sell open_quantity_def)
    next
      case none
      then show ?thesis
        using n Suc by (simp add: sim_upto_Suc_fields execute_trades_none)
    qed
  qed
qed

lemma buy_followed_by_sell:
  "Suc k < length (sim.trades (sim_upto ib c ps df n)) \<Longrightarrow>
   type (sim.trades (sim_upto ib c ps df n) ! k) = BUY \<Longrightarrow>
   fgt0 (quantity (sim.trades (sim_upto ib c ps df n) ! k)) \<Longrightarrow>
   type (sim.trades (sim_upto ib c ps df n) ! Suc k) = SELL"
proof (induction n)
  case 0
  then show ?case by (simp add: sim_upto_0 init_sim_def)
next
  case (Suc n)
  let ?st = "sim_upto ib c ps df n"
  show ?case
  proof (cases "n = 0")
    case True
    with Suc.prems show ?thesis by (simp add: sim_upto_1 init_sim_def)
  next
    case False
    then have n: "1 \<le> n" by simp
    consider (buy) "signal (df ! (n - 1)) = 1" "feq0 (position ?st)"
      | (sell) "signal (df ! (n - 1)) = - 1" "fgt0 (position ?st)"
      | (none) "\<not> (signal (df ! (n - 1)) = 1 \<and> feq0 (position ?st))"
          "\<not> (signal (df ! (n - 1)) = - 1 \<and> fgt0 (position ?st))"
      by blast
    then show ?thesis
    proof cases
      case none
      then have "sim.trades (sim_upto ib c ps df (Suc n)) = sim.trades ?st"
        using n by (simp add: sim_upto_Suc_fields execute_trades_none)
      with Suc show ?thesis by simp
    next
      case buy
      then obtain t where t: "sim.trades (sim_upto ib c ps df (Suc n)) = sim.trades ?st @ [t]"
        using n by (simp add: sim_upto_Suc_fields execute_trades_buy)
      show ?thesis
      proof (cases "Suc k < length (sim.trades ?st)")
        case True
        with Suc t show ?thesis by (simp add: nth_append)
      next
        case False
        with Suc.prems(1) t have k: "Suc k = length (sim.trades ?st)" by simp
        then have ne: "sim.trades ?st \<noteq> []" by auto
        have "sim.trades ?st ! k = last (sim.trades ?st)"
          using k [symmetric] ne by (simp add: last_conv_nth)
        with Suc.prems(2,3) t k
        have "type (last (sim.trades ?st)) = BUY" "fgt0 (quantity (last (sim.trades ?st)))"
          by (simp_all add: nth_append)
        then have "fgt0 (position ?st)"
          using ne by (simp add: position_sim_upto open_quantity_def)
        with buy(2) show ?thesis using feq0_not_fgt0 by blast
      qed
    next
      case sell
      then obtain t where t: "sim.trades (sim_upto ib c ps df (Suc n)) = sim.trades ?st @ [t]"
        and ty: "type t = SELL"
        using n by (simp add: sim_upto_Suc_fields execute_trades_sell)
      show ?thesis
      proof (cases "Suc k < length (sim.trades ?st)")
        case True
        with Suc t show ?thesis by (simp add: nth_append)
      next
        case False
        with Suc.prems(1) t have k: "Suc k = length (sim.trades ?st)" by simp
        with t ty show ?thesis by (simp add: nth_append)
      qed
    qed
  qed
qed

lemma run_backtest_Inr_fields:
  assumes "run_backtest ib c df ps = Inr r"
  obtains st where "close_open_position c df (simulate ib c ps df) = Inr st"
    "BacktestResult.trades r = sim.trades st" "BacktestResult.equity_curve r = sim.equity_curve st"
    "final_balance r = sim.balance st" "total_trades r = length (sim.trades st)"
    "length (sim.equity_curve st) = length df"
  using assms
  by (auto simp add: run_backtest_def Let_def split: sum.splits if_splits)

lemma run_backtest_trades:
  assumes "run_backtest ib c df ps = Inr r"
  shows "BacktestResult.trades r = sim.trades (simulate ib c ps df)"
proof -
  obtain st where "close_open_position c df (simulate ib c ps df) = Inr st"
    "BacktestResult.trades r = sim.trades st"
    using assms by (rule run_backtest_Inr_fields)
  moreover have "\<exists>st. close_open_position c df (simulate ib c ps df) = Inr st
        \<and> sim.trades st = sim.trades (simulate ib c ps df)"
    using close_open_position_simulate [of c df ib ps] by blast
  ultimately show ?thesis by auto
qed

lemma fgt0_simulate_nonempty:
  assumes "fgt0 (position (simulate ib c ps df))"
  shows "df \<noteq> []"
  using assms by (auto simp add: simulate_Nil init_sim_def)

lemma Inr_projr: "\<not> isl x \<Longrightarrow> x = Inr (projr x)"
  by (cases x) auto

section \<open>Facts about the metrics\<close>














lemma upt_0_Suc: "[0..<Suc n] = 0 # map Suc [0..<n]"
  by (simp add: upt_conv_Cons map_Suc_upt del: upt_Suc)

lemma cumprod_from_Fin:
  "cumprod_from (Fin a) (map Fin xs)
     = map (\<lambda>i. Fin (a * prod_list (take (Suc i) xs))) [0..<length xs]"
proof (induction xs arbitrary: a)
  case Nil
  show ?case by simp
next
  case (Cons x xs)
  show ?case
    by (simp add: Cons.IH upt_0_Suc comp_def mult.assoc del: upt_Suc)
qed

lemma cumprod_returns:
  "cumprod (map (\<lambda>r. fadd (Fin 1) r) (map Fin rs)) = map (\<lambda>i. Fin (cumulative rs i)) [0..<length rs]"
proof -
  have "map (\<lambda>r. fadd (Fin 1) r) (map Fin rs) = map Fin (map (\<lambda>r. 1 + r) rs)" by simp
  then show ?thesis
    by (simp only: cumprod_def cumprod_from_Fin) (simp add: cumulative_def take_map)
qed

lemma expanding_max_from_Fin:
  "expanding_max_from (Fin a) (map Fin ys)
     = map (\<lambda>i. Fin (Max (insert a (set (take (Suc i) ys))))) [0..<length ys]"
proof (induction ys arbitrary: a)
  case Nil
  show ?case by simp
next
  case (Cons y ys)
  let ?f = "\<lambda>i. Fin (Max (insert a (set (take (Suc i) (y # ys)))))"
  have m: "fmax_skipna (Fin a) (Fin y) = Fin (max a y)"
    by (simp add: fmax_skipna_def max_def)
  have hd: "?f 0 = Fin (max a y)" by simp
  have tl: "\<And>i. ?f (Suc i) = Fin (Max (insert (max a y) (set (take (Suc i) ys))))"
  proof -
    fix i
    show "?f (Suc i) = Fin (Max (insert (max a y) (set (take (Suc i) ys))))"
      by (cases "set (take (Suc i) ys) = {}") (simp_all add: max.assoc)
  qed
  have "expanding_max_from (Fin a) (map Fin (y # ys))
      = Fin (max a y) # map (\<lambda>i. Fin (Max (insert (max a y) (set (take (Suc i) ys))))) [0..<length ys]"
    by (simp only: list.map expanding_max_from.simps m Cons.IH)
  also have "\<dots> = ?f 0 # map (\<lambda>i. ?f (Suc i)) [0..<length ys]"
    by (simp only: hd tl)
  also have "\<dots> = map ?f [0..<length (y # ys)]"
    by (simp only: length_Cons upt_0_Suc list.map map_map comp_def)
  finally show ?case .
qed

lemma map_inf_to_nan_Fin: "map inf_to_nan (map Fin ys) = map Fin ys"
  by (simp add: inf_to_nan_def)

lemma expanding_max_Fin:
  "expanding_max (map Fin ys) = map (\<lambda>i. Fin (Max (set (take (Suc i) ys)))) [0..<length ys]"
proof (cases ys)
  case Nil
  then show ?thesis by (simp add: expanding_max_def)
next
  case (Cons y zs)
  have m: "fmax_skipna NaN (Fin y) = Fin y" by (simp add: fmax_skipna_def)
  have "expanding_max (map Fin ys) = expanding_max_from NaN (map Fin ys)"
    by (simp only: expanding_max_def map_inf_to_nan_Fin)
  also have "\<dots> = Fin y # expanding_max_from (Fin y) (map Fin zs)"
    by (simp add: Cons m)
  finally show ?thesis
    by (simp add: Cons expanding_max_from_Fin upt_0_Suc comp_def del: upt_Suc)
qed


lemma set_take_map_upt:
  assumes "i < n"
  shows "set (take (Suc i) (map f [0..<n])) = f ` {..i}"
proof -
  have "take (Suc i) (map f [0..<n]) = map f [0..<Suc i]"
    using assms by (simp add: take_map take_upt del: upt_Suc)
  then show ?thesis
    by (simp add: atLeast0LessThan lessThan_Suc_atMost del: upt_Suc)
qed

lemma drawdown_series_Fin:
  assumes "\<forall>i<length rs. running_max rs i \<noteq> 0"
  shows "drawdown_series (map Fin rs) = map (\<lambda>i. Fin (drawdown_at rs i)) [0..<length rs]"
proof -
  let ?n = "length rs"
  let ?ys = "map (cumulative rs) [0..<?n]"
  have cum: "cumprod (map (\<lambda>r. fadd (Fin 1) r) (map Fin rs)) = map Fin ?ys"
    by (simp only: cumprod_returns) (simp add: comp_def)
  have "expanding_max (map Fin ?ys)
      = map (\<lambda>i. Fin (Max (set (take (Suc i) ?ys)))) [0..<?n]"
    by (simp only: expanding_max_Fin length_map length_upt) simp
  also have "\<dots> = map (\<lambda>i. Fin (running_max rs i)) [0..<?n]"
    by (rule map_cong) (simp_all add: set_take_map_upt running_max_def)
  finally have rmax: "expanding_max (map Fin ?ys) = map (\<lambda>i. Fin (running_max rs i)) [0..<?n]" .
  have z: "zip (map Fin ?ys) (map (\<lambda>i. Fin (running_max rs i)) [0..<?n])
      = map (\<lambda>i. (Fin (cumulative rs i), Fin (running_max rs i))) [0..<?n]"
    by (simp add: zip_map_map zip_same_conv_map comp_def)
  have "map (\<lambda>(c, m). fdiv (fsub c m) m)
          (map (\<lambda>i. (Fin (cumulative rs i), Fin (running_max rs i))) [0..<?n])
      = map (\<lambda>i. Fin (drawdown_at rs i)) [0..<?n]"
    using assms by (auto simp add: fsub_def drawdown_at_def)
  then show ?thesis
    by (simp only: drawdown_series_def Let_def cum rmax z)
qed

lemma foldl_fmin_Fin:
  "foldl fmin_skipna (Fin a) (map Fin zs) = Fin (Min (insert a (set zs)))"
proof (induction zs arbitrary: a)
  case Nil
  show ?case by simp
next
  case (Cons z zs)
  have m: "fmin_skipna (Fin a) (Fin z) = Fin (min a z)"
    by (auto simp add: fmin_skipna_def min_def)
  have "Min (insert (min a z) (set zs)) = Min (insert a (insert z (set zs)))"
    by (cases "set zs = {}") (simp_all add: min.assoc)
  then show ?case
    by (simp only: list.map foldl_Cons m Cons.IH list.set)
qed

lemma series_min_Fin:
  assumes "zs \<noteq> []"
  shows "series_min (map Fin zs) = Fin (Min (set zs))"
proof -
  obtain z ws where zs: "zs = z # ws" using assms by (cases zs) auto
  have "fmin_skipna NaN (Fin z) = Fin z" by (simp add: fmin_skipna_def)
  then show ?thesis
    by (simp add: zs series_min_def foldl_fmin_Fin)
qed

lemma max_drawdown_of_Fin:
  assumes "rs \<noteq> []" "\<forall>i<length rs. running_max rs i \<noteq> 0"
  shows "max_drawdown_of (map Fin rs) = Fin (spec_max_drawdown rs)"
proof -
  let ?zs = "map (drawdown_at rs) [0..<length rs]"
  have ne: "?zs \<noteq> []" using assms(1) by simp
  have "drawdown_series (map Fin rs) = map Fin ?zs"
    using drawdown_series_Fin [OF assms(2)] by (simp add: comp_def)
  then have "series_min (drawdown_series (map Fin rs)) = Fin (Min (set ?zs))"
    using series_min_Fin [OF ne] by simp
  moreover have "set ?zs = drawdown_at rs ` {..<length rs}"
    by (simp add: atLeast0LessThan)
  ultimately show ?thesis
    by (simp add: max_drawdown_of_def spec_max_drawdown_def)
qed

section \<open>Facts about the pairing of trades\<close>

lemma profits_of_matched_pairs:
  "profits_of ts = map (\<lambda>(b, s). profit b s) (matched_pairs ts)"
proof -
  have "\<And>bs ss. concat (map (\<lambda>buy. case matching_sells ss buy of [] \<Rightarrow> []
            | sell # _ \<Rightarrow> [profit buy sell]) bs)
      = map (\<lambda>(b, s). profit b s) (concat (map (\<lambda>buy. case matching_sells ss buy of [] \<Rightarrow> []
            | sell # _ \<Rightarrow> [(buy, sell)]) bs))"
    subgoal for bs ss
      by (induction bs) (auto split: list.splits)
    done
  then show ?thesis by (simp add: profits_of_def matched_pairs_def Let_def)
qed

lemma matched_pairs_no_sells:
  "filter (\<lambda>t. type t = SELL) ts = [] \<Longrightarrow> matched_pairs ts = []"
  by (simp add: matched_pairs_def matching_sells_def)

lemma matched_pairs_no_buys:
  "filter (\<lambda>t. type t = BUY) ts = [] \<Longrightarrow> matched_pairs ts = []"
  by (simp add: matched_pairs_def)

lemma win_rate_of_pairs:
  "win_rate_of ts =
     (if matched_pairs ts = [] then 0
      else real (length (filter (\<lambda>(b, s). fgt0 (profit b s)) (matched_pairs ts)))
             / real (length (matched_pairs ts)) * 100)"
proof -
  have f: "filter fgt0 (map (\<lambda>(b, s). profit b s) ps) = map (\<lambda>(b, s). profit b s) (filter (\<lambda>(b, s). fgt0 (profit b s)) ps)" for ps
    by (induction ps) auto
  show ?thesis
  proof (cases "filter (\<lambda>t. type t = BUY) ts = [] \<or> filter (\<lambda>t. type t = SELL) ts = []")
    case True
    then have "matched_pairs ts = []"
      using matched_pairs_no_buys matched_pairs_no_sells by blast
    with True show ?thesis by (auto simp add: win_rate_of_def)
  next
    case False
    then have "ts \<noteq> []" by auto
    with False show ?thesis
      by (simp add: win_rate_of_def Let_def profits_of_matched_pairs f)
  qed
qed

lemma trades_execute_cases:
  "sim.trades (execute_trades c ps df st i) = sim.trades st
   \<or> (\<exists>t. sim.trades (execute_trades c ps df st i) = sim.trades st @ [t]
          \<and> timestamp t = index (df ! i))"
  by (simp add: execute_trades_def Let_def)

lemma timestamps_sim_upto:
  assumes "sorted_wrt (<) (map index df)" "n \<le> length df"
  shows "sorted_wrt (<) (map timestamp (sim.trades (sim_upto ib c ps df n)))
    \<and> (\<forall>t\<in>set (sim.trades (sim_upto ib c ps df n)). \<exists>j<n. timestamp t = index (df ! j))"
  using assms(2)
proof (induction n)
  case 0
  show ?case by (simp add: sim_upto_0 init_sim_def)
next
  case (Suc n)
  let ?st = "sim_upto ib c ps df n"
  have ih: "sorted_wrt (<) (map timestamp (sim.trades ?st))"
    "\<forall>t\<in>set (sim.trades ?st). \<exists>j<n. timestamp t = index (df ! j)"
    using Suc by simp_all
  show ?case
  proof (cases "n = 0")
    case True
    then show ?thesis by (simp add: sim_upto_1 init_sim_def)
  next
    case False
    then have n: "1 \<le> n" by simp
    have tr: "sim.trades (sim_upto ib c ps df (Suc n)) = sim.trades (execute_trades c ps df ?st n)"
      using n by (simp add: sim_upto_Suc_fields)
    from trades_execute_cases [of c ps df ?st n]
    show ?thesis
    proof
      assume "sim.trades (execute_trades c ps df ?st n) = sim.trades ?st"
      moreover have "\<forall>t\<in>set (sim.trades ?st). \<exists>j<Suc n. timestamp t = index (df ! j)"
        using ih(2) less_SucI by blast
      ultimately show ?thesis using ih(1) tr by simp
    next
      assume "\<exists>t. sim.trades (execute_trades c ps df ?st n) = sim.trades ?st @ [t]
          \<and> timestamp t = index (df ! n)"
      then obtain t where t: "sim.trades (execute_trades c ps df ?st n) = sim.trades ?st @ [t]"
        "timestamp t = index (df ! n)"
        by blast
      have lt: "\<And>j. j < n \<Longrightarrow> index (df ! j) < index (df ! n)"
      proof -
        fix j assume j: "j < n"
        have "n < length (map index df)" using Suc.prems by simp
        then have "map index df ! j < map index df ! n"
          using assms(1) j sorted_wrt_nth_less by blast
        then show "index (df ! j) < index (df ! n)"
          using j Suc.prems by simp
      qed
      have "\<forall>x\<in>set (sim.trades ?st). timestamp x < timestamp t"
        using ih(2) lt t(2) by fastforce
      then have "sorted_wrt (<) (map timestamp (sim.trades ?st @ [t]))"
        using ih(1) by (simp add: sorted_wrt_append)
      moreover have "\<forall>x\<in>set (sim.trades ?st @ [t]). \<exists>j<Suc n. timestamp x = index (df ! j)"
      proof
        fix x assume "x \<in> set (sim.trades ?st @ [t])"
        then consider "x \<in> set (sim.trades ?st)" | "x = t" by auto
        then show "\<exists>j<Suc n. timestamp x = index (df ! j)"
        proof cases
          case 1
          then show ?thesis using ih(2) less_SucI by blast
        next
          case 2
          then show ?thesis using t(2) by blast
        qed
      qed
      ultimately show ?thesis using tr t(1) by simp
    qed
  qed
qed

lemma first_match_is_earliest:
  assumes "sorted_wrt (<) (map timestamp xs)" "filter P xs = y # ys" "x \<in> set xs" "P x"
  shows "timestamp y \<le> timestamp x"
proof -
  have "sorted_wrt (<) (map timestamp (filter P xs))"
    using assms(1) by (simp add: sorted_wrt_map sorted_wrt_filter)
  then have "\<forall>z\<in>set ys. timestamp y < timestamp z"
    using assms(2) by simp
  moreover have "x \<in> set (filter P xs)" using assms(3,4) by simp
  then have "x \<in> set (y # ys)" using assms(2) by simp
  ultimately show ?thesis by auto
qed

lemma matched_pairs_sound:
  assumes "(b, s) \<in> set (matched_pairs ts)"
  shows "b \<in> set ts \<and> type b = BUY
    \<and> (\<exists>ss. filter (\<lambda>x. timestamp b < timestamp x) (filter (\<lambda>t. type t = SELL) ts) = s # ss)"
  using assms
  by (auto simp add: matched_pairs_def matching_sells_def split: list.splits)
    (metis (lifting))

lemma matched_pairs_earliest:
  assumes "sorted_wrt (<) (map timestamp ts)" "(b, s) \<in> set (matched_pairs ts)"
  shows "type b = BUY \<and> type s = SELL \<and> timestamp b < timestamp s
    \<and> (\<forall>s'\<in>set ts. type s' = SELL \<and> timestamp b < timestamp s' \<longrightarrow> timestamp s \<le> timestamp s')"
proof -
  let ?sells = "filter (\<lambda>t. type t = SELL) ts"
  obtain ss where b: "type b = BUY"
    and f: "filter (\<lambda>x. timestamp b < timestamp x) ?sells = s # ss"
    using matched_pairs_sound [OF assms(2)] by blast
  have "s \<in> set (filter (\<lambda>x. timestamp b < timestamp x) ?sells)" using f by simp
  then have s: "type s = SELL" "timestamp b < timestamp s" by auto
  have srt: "sorted_wrt (<) (map timestamp ?sells)"
    using assms(1) by (simp add: sorted_wrt_map sorted_wrt_filter)
  have "\<forall>s'\<in>set ts. type s' = SELL \<and> timestamp b < timestamp s' \<longrightarrow> timestamp s \<le> timestamp s'"
  proof (intro ballI impI)
    fix s' assume "s' \<in> set ts" "type s' = SELL \<and> timestamp b < timestamp s'"
    then have "s' \<in> set ?sells" "timestamp b < timestamp s'" by simp_all
    with srt f show "timestamp s \<le> timestamp s'"
      by (rule_tac first_match_is_earliest [where P = "\<lambda>x. timestamp b < timestamp x"])
  qed
  with b s show ?thesis by blast
qed

lemma run_backtest_win_rate:
  assumes "run_backtest ib c df ps = Inr r"
  shows "win_rate r = win_rate_of (BacktestResult.trades r)"
  using assms
  by (auto simp add: run_backtest_def Let_def split: sum.splits if_splits)

lemma concat_first_matches:
  "concat (map (\<lambda>b. case f b of [] \<Rightarrow> [] | s # _ \<Rightarrow> [(b, s)]) bs)
     = map (\<lambda>b. (b, hd (f b))) (filter (\<lambda>b. f b \<noteq> []) bs)"
  by (induction bs) (auto split: list.splits)

lemma matched_pairs_closed_form:
  "matched_pairs ts =
     map (\<lambda>b. (b, hd (matching_sells (filter (\<lambda>t. type t = SELL) ts) b)))
       (filter (\<lambda>b. type b = BUY \<and> matching_sells (filter (\<lambda>t. type t = SELL) ts) b \<noteq> []) ts)"
proof -
  have "filter (\<lambda>b. matching_sells (filter (\<lambda>t. type t = SELL) ts) b \<noteq> [])
          (filter (\<lambda>t. type t = BUY) ts)
      = filter (\<lambda>b. type b = BUY \<and> matching_sells (filter (\<lambda>t. type t = SELL) ts) b \<noteq> []) ts"
    by (simp add: conj_commute)
  then show ?thesis
    by (simp only: matched_pairs_def Let_def concat_first_matches)
qed

section \<open>Cash balance after a Buy\<close>

text \<open>
  C1. The claim is that the cash balance is never negative when the position size is in
  \<open>(0, 1]\<close> and the commission in \<open>[0, 1)\<close>. The Buy branch takes
  \<open>trade_amount + commission_cost = balance * position_size * (1 + commission)\<close> out of
  the balance, which is more than the balance as soon as
  \<open>position_size * (1 + commission) > 1\<close>. With the values \<^verbatim>\<open>main.py\<close> passes (10000,
  commission 0.001, position size 1.0) a Buy at 100 leaves a balance of -10, recorded in
  the trade and held until the position is closed.
\<close>

theorem C1_buy_overdraws_balance:
  "sim.balance (sim_upto 10000 (1 / 1000) 1
      [\<lparr>index = 0, close = 100, signal = 1\<rparr>, \<lparr>index = 1, close = 100, signal = 0\<rparr>] 2)
     = Fin (- 10)
   \<and> \<not> isl (run_backtest 10000 (1 / 1000)
      [\<lparr>index = 0, close = 100, signal = 1\<rparr>, \<lparr>index = 1, close = 100, signal = 0\<rparr>] 1)
   \<and> map trade.balance (BacktestResult.trades (projr (run_backtest 10000 (1 / 1000)
      [\<lparr>index = 0, close = 100, signal = 1\<rparr>, \<lparr>index = 1, close = 100, signal = 0\<rparr>] 1)))
     = [Fin (- 10)]"
  by (simp add: eval_simps)

text \<open>
  What the sizing does guarantee: with an initial balance that is not negative, closes
  above zero, a commission in \<open>[0, 1]\<close> and a position size with
  \<open>position_size * (1 + commission) \<le> 1\<close>, the balance and the position are finite and
  never negative during the loop. The bound of the claim, a position size of at most 1,
  is short of that by the commission.
\<close>

lemma balance_nonneg_within_budget:
  assumes "0 \<le> ib" "0 \<le> ps" "0 \<le> c" "c \<le> 1" "ps * (1 + c) \<le> 1"
    "\<forall>j<length df. 0 < close (df ! j)" "n \<le> length df"
  shows "\<exists>b q. sim.balance (sim_upto ib c ps df n) = Fin b \<and> 0 \<le> b
    \<and> position (sim_upto ib c ps df n) = Fin q \<and> 0 \<le> q"
  using assms(7)
proof (induction n)
  case 0
  show ?case using assms(1) by (simp add: sim_upto_0 init_sim_def)
next
  case (Suc n)
  let ?st = "sim_upto ib c ps df n"
  obtain b q where st: "sim.balance ?st = Fin b" "0 \<le> b" "position ?st = Fin q" "0 \<le> q"
    using Suc by auto
  show ?case
  proof (cases "n = 0")
    case True
    then show ?thesis using assms(1) by (simp add: sim_upto_1 init_sim_def)
  next
    case False
    then have n: "1 \<le> n" by simp
    have p: "0 < close (df ! n)" using assms(6) Suc.prems by simp
    consider (buy) "signal (df ! (n - 1)) = 1" "feq0 (position ?st)"
      | (sell) "signal (df ! (n - 1)) = - 1" "fgt0 (position ?st)"
      | (none) "\<not> (signal (df ! (n - 1)) = 1 \<and> feq0 (position ?st))"
          "\<not> (signal (df ! (n - 1)) = - 1 \<and> fgt0 (position ?st))"
      by blast
    then show ?thesis
    proof cases
      case buy
      have "b - (b * ps + b * ps * c) = b * (1 - ps * (1 + c))" by (simp add: algebra_simps)
      moreover have "0 \<le> b * (1 - ps * (1 + c))" using st(2) assms(5) by simp
      ultimately have "0 \<le> b - (b * ps + b * ps * c)" by simp
      moreover have "0 \<le> b * ps / close (df ! n)" using st(2) assms(2) p by simp
      ultimately show ?thesis
        using n p buy st(1)
        by (simp add: sim_upto_Suc_fields execute_trades_buy fsub_def)
    next
      case sell
      have "q * close (df ! n) - q * close (df ! n) * c = q * close (df ! n) * (1 - c)"
        by (simp add: algebra_simps)
      moreover have "0 \<le> q * close (df ! n) * (1 - c)" using st(4) p assms(4) by simp
      ultimately have "0 \<le> b + (q * close (df ! n) - q * close (df ! n) * c)"
        using st(2) by simp
      then show ?thesis
        using n sell st(1,3)
        by (simp add: sim_upto_Suc_fields execute_trades_sell fsub_def)
    next
      case none
      then show ?thesis
        using n st by (simp add: sim_upto_Suc_fields execute_trades_none)
    qed
  qed
qed

section \<open>Arguments are not checked\<close>

text \<open>
  C2. The claim is that \<open>run_backtest\<close> fails with an InvalidInput error, before the
  simulation, when the commission is outside \<open>[0, 1)\<close>, the position size outside
  \<open>(0, 1]\<close>, the initial balance not positive or the series shorter than two bars. The
  function has no check of any argument. Counterexample: a commission of 2, a position
  size of 3, an initial balance of -5 and a one-bar frame each give a result, and with
  the three bad parameters together the Buy is executed and recorded.
\<close>

theorem C2_invalid_arguments_accepted:
  "\<not> isl (run_backtest 10000 2
      [\<lparr>index = 0, close = 100, signal = 1\<rparr>, \<lparr>index = 1, close = 100, signal = 0\<rparr>] 1)
   \<and> \<not> isl (run_backtest 10000 (1 / 1000)
      [\<lparr>index = 0, close = 100, signal = 1\<rparr>, \<lparr>index = 1, close = 100, signal = 0\<rparr>] 3)
   \<and> \<not> isl (run_backtest (- 5) (1 / 1000)
      [\<lparr>index = 0, close = 100, signal = 1\<rparr>, \<lparr>index = 1, close = 100, signal = 0\<rparr>] 1)
   \<and> \<not> isl (run_backtest 10000 (1 / 1000) [\<lparr>index = 0, close = 100, signal = 1\<rparr>] 1)
   \<and> total_trades (projr (run_backtest (- 5) 2
      [\<lparr>index = 0, close = 100, signal = 1\<rparr>, \<lparr>index = 1, close = 100, signal = 0\<rparr>] 3)) = 1
   \<and> final_balance (projr (run_backtest (- 5) 2
      [\<lparr>index = 0, close = 100, signal = 1\<rparr>, \<lparr>index = 1, close = 100, signal = 0\<rparr>] 3)) = Fin 40"
  by (simp add: eval_simps)

text \<open>
  C2, amended. \<open>run_backtest\<close> returns a result for every non-empty frame, whatever the
  commission, the position size and the initial balance other than zero. It fails on the
  empty frame, with the ValueError of the equity series, and on an initial balance of
  exactly zero, with the ZeroDivisionError of the total return; both are raised after the
  loop, by the library and the language, not by a check.
\<close>

theorem C2_run_backtest_checks_nothing:
  "(df \<noteq> [] \<and> initial_balance \<noteq> 0 \<longrightarrow>
      (\<exists>r. run_backtest initial_balance commission df position_size = Inr r))
   \<and> (df = [] \<longrightarrow> run_backtest initial_balance commission df position_size = Inl ValueError)
   \<and> (df \<noteq> [] \<and> initial_balance = 0 \<longrightarrow>
      run_backtest initial_balance commission df position_size = Inl ZeroDivisionError)"
proof (intro conjI impI)
  assume "df \<noteq> [] \<and> initial_balance \<noteq> 0"
  then have "\<not> isl (run_backtest initial_balance commission df position_size)"
    by (simp add: run_backtest_isl)
  then show "\<exists>r. run_backtest initial_balance commission df position_size = Inr r"
    by (cases "run_backtest initial_balance commission df position_size") auto
next
  assume "df = []"
  then show "run_backtest initial_balance commission df position_size = Inl ValueError"
    by (simp add: run_backtest_Nil)
next
  assume "df \<noteq> [] \<and> initial_balance = 0"
  then show "run_backtest initial_balance commission df position_size = Inl ZeroDivisionError"
    by (simp add: run_backtest_zero_balance)
qed

text \<open>C2, amended, at the frame and parameters of the counterexample, at the empty frame
  and at an initial balance of zero.\<close>

theorem C2_run_backtest_checks_nothing_witness:
  "(\<exists>r. run_backtest (- 5) 2
      [\<lparr>index = 0, close = 100, signal = 1\<rparr>, \<lparr>index = 1, close = 100, signal = 0\<rparr>] 3 = Inr r)
   \<and> run_backtest 10000 (1 / 1000) [] 1 = Inl ValueError
   \<and> run_backtest 0 (1 / 1000)
      [\<lparr>index = 0, close = 100, signal = 1\<rparr>, \<lparr>index = 1, close = 100, signal = 0\<rparr>] 1
     = Inl ZeroDivisionError"
  using C2_run_backtest_checks_nothing [of "[\<lparr>index = 0, close = 100, signal = 1\<rparr>, \<lparr>index = 1, close = 100, signal = 0\<rparr>]" "- 5" 2 3]
    C2_run_backtest_checks_nothing [of "[]" 10000 "1 / 1000" 1]
    C2_run_backtest_checks_nothing [of "[\<lparr>index = 0, close = 100, signal = 1\<rparr>, \<lparr>index = 1, close = 100, signal = 0\<rparr>]" 0 "1 / 1000" 1]
  by simp

section \<open>A Buy at a price that is not positive\<close>

text \<open>
  C3. The claim is that a Buy at a bar whose close is zero or negative aborts the run with
  an InvalidPriceData error. The Buy branch divides by the price without looking at it.
  Counterexample: with a close of -50 at the bar of the Buy the run returns a result whose
  log holds a Buy of -200 units; with a close of 0 the quantity is the infinity numpy
  gives for 10000 / 0.
\<close>

theorem C3_buy_at_nonpositive_price:
  "\<not> isl (run_backtest 10000 0
      [\<lparr>index = 0, close = 100, signal = 1\<rparr>, \<lparr>index = 1, close = - 50, signal = 0\<rparr>,
       \<lparr>index = 2, close = 5, signal = 0\<rparr>] 1)
   \<and> BacktestResult.trades (projr (run_backtest 10000 0
      [\<lparr>index = 0, close = 100, signal = 1\<rparr>, \<lparr>index = 1, close = - 50, signal = 0\<rparr>,
       \<lparr>index = 2, close = 5, signal = 0\<rparr>] 1))
     = [\<lparr>timestamp = 1, type = BUY, price = - 50, quantity = Fin (- 200), balance = Fin 0\<rparr>]
   \<and> \<not> isl (run_backtest 10000 0
      [\<lparr>index = 0, close = 100, signal = 1\<rparr>, \<lparr>index = 1, close = 0, signal = 0\<rparr>,
       \<lparr>index = 2, close = 5, signal = 0\<rparr>] 1)
   \<and> BacktestResult.trades (projr (run_backtest 10000 0
      [\<lparr>index = 0, close = 100, signal = 1\<rparr>, \<lparr>index = 1, close = 0, signal = 0\<rparr>,
       \<lparr>index = 2, close = 5, signal = 0\<rparr>] 1))
     = [\<lparr>timestamp = 1, type = BUY, price = 0, quantity = PInf, balance = Fin 0\<rparr>]"
  by (simp add: eval_simps)

text \<open>
  C3, amended. When the lagged signal is Buy and the position is zero at a bar whose close
  is zero or negative, the bar records a Buy whose quantity is \<open>trade_amount / close\<close>
  (float division), the position becomes that quantity, and the run returns a result
  (the initial balance not being zero).
\<close>

theorem C3_buy_executes_at_any_price:
  assumes "1 \<le> i" "i < length df" "signal (df ! (i - 1)) = 1"
    "feq0 (position (sim_upto ib c ps df i))" "close (df ! i) \<le> 0" "ib \<noteq> 0"
  shows "trades_at ib c ps df i =
      [\<lparr>timestamp = index (df ! i), type = BUY, price = close (df ! i),
        quantity = fdiv (fmul (sim.balance (sim_upto ib c ps df i)) (Fin ps)) (Fin (close (df ! i))),
        balance = fsub (sim.balance (sim_upto ib c ps df i))
          (fadd (fmul (sim.balance (sim_upto ib c ps df i)) (Fin ps))
                (fmul (fmul (sim.balance (sim_upto ib c ps df i)) (Fin ps)) (Fin c)))\<rparr>]
    \<and> position (sim_upto ib c ps df (Suc i))
        = fdiv (fmul (sim.balance (sim_upto ib c ps df i)) (Fin ps)) (Fin (close (df ! i)))
    \<and> (\<exists>r. run_backtest ib c df ps = Inr r)"
proof -
  have "df \<noteq> []" using assms(2) by auto
  then have "\<not> isl (run_backtest ib c df ps)" using assms(6) by (simp add: run_backtest_isl)
  then have "\<exists>r. run_backtest ib c df ps = Inr r"
    by (cases "run_backtest ib c df ps") auto
  then show ?thesis
    using assms(1)
    by (simp add: trades_at_def sim_upto_Suc_fields execute_trades_buy [OF assms(3,4)])
qed

text \<open>C3, amended, at the Buy of the counterexample.\<close>

theorem C3_buy_executes_at_any_price_witness:
  "trades_at 10000 0 1 [\<lparr>index = 0, close = 100, signal = 1\<rparr>, \<lparr>index = 1, close = - 50, signal = 0\<rparr>] 1
     = [\<lparr>timestamp = 1, type = BUY, price = - 50, quantity = Fin (- 200), balance = Fin 0\<rparr>]
   \<and> position (sim_upto 10000 0 1 [\<lparr>index = 0, close = 100, signal = 1\<rparr>, \<lparr>index = 1, close = - 50, signal = 0\<rparr>] 2) = Fin (- 200)
   \<and> (\<exists>r. run_backtest 10000 0 [\<lparr>index = 0, close = 100, signal = 1\<rparr>, \<lparr>index = 1, close = - 50, signal = 0\<rparr>] 1 = Inr r)"
  using C3_buy_executes_at_any_price [of 1 "[\<lparr>index = 0, close = 100, signal = 1\<rparr>, \<lparr>index = 1, close = - 50, signal = 0\<rparr>]" 10000 0 1]
  by (simp add: sim_upto_1 init_sim_def fsub_def numeral_2_eq_2)

section \<open>Next-bar execution\<close>

text \<open>
  C4. For every bar \<open>i \<ge> 1\<close>, the trade executed at bar \<open>i\<close> is determined by the
  signals before bar \<open>i\<close> and the bars up to \<open>i\<close>: two frames that agree on the closes
  (and index labels) up to bar \<open>i\<close> and on the signals up to bar \<open>i - 1\<close> record the same
  trade at bar \<open>i\<close>, and indeed reach the same state after it, whatever follows. And the
  signal of the final bar is never executed: replacing it leaves the whole result
  unchanged.
\<close>

theorem C4_no_look_ahead:
  "(1 \<le> i \<and> i < length df \<and> i < length df'
      \<and> (\<forall>j\<le>i. close (df ! j) = close (df' ! j) \<and> index (df ! j) = index (df' ! j))
      \<and> (\<forall>j<i. signal (df ! j) = signal (df' ! j))
     \<longrightarrow> trades_at ib c ps df i = trades_at ib c ps df' i
       \<and> sim_upto ib c ps df (Suc i) = sim_upto ib c ps df' (Suc i))
   \<and> (df \<noteq> [] \<longrightarrow>
        run_backtest ib c (butlast df @ [(last df)\<lparr>signal := s\<rparr>]) ps = run_backtest ib c df ps)"
proof (intro conjI impI)
  assume h: "1 \<le> i \<and> i < length df \<and> i < length df'
      \<and> (\<forall>j\<le>i. close (df ! j) = close (df' ! j) \<and> index (df ! j) = index (df' ! j))
      \<and> (\<forall>j<i. signal (df ! j) = signal (df' ! j))"
  have a: "sim_upto ib c ps df (Suc i) = sim_upto ib c ps df' (Suc i)"
    by (rule sim_upto_cong) (use h in auto)
  have b: "sim_upto ib c ps df i = sim_upto ib c ps df' i"
    by (rule sim_upto_cong) (use h in auto)
  show "sim_upto ib c ps df (Suc i) = sim_upto ib c ps df' (Suc i)" by (rule a)
  show "trades_at ib c ps df i = trades_at ib c ps df' i"
    by (simp add: trades_at_def a b)
next
  assume ne: "df \<noteq> []"
  let ?df' = "butlast df @ [(last df)\<lparr>signal := s\<rparr>]"
  have len: "length ?df' = length df" using ne by simp
  have nth: "\<And>j. Suc j < length df \<Longrightarrow> ?df' ! j = df ! j"
    by (simp add: nth_append nth_butlast)
  have lst: "?df' ! (length df - 1) = (last df)\<lparr>signal := s\<rparr>"
    by (simp add: nth_append)
  have cl: "\<forall>j<length ?df'. close (?df' ! j) = close (df ! j) \<and> index (?df' ! j) = index (df ! j)"
  proof (intro allI impI)
    fix j assume "j < length ?df'"
    then have j: "j < length df" using len by simp
    show "close (?df' ! j) = close (df ! j) \<and> index (?df' ! j) = index (df ! j)"
    proof (cases "Suc j < length df")
      case True
      then show ?thesis using nth by simp
    next
      case False
      with j have "j = length df - 1" by simp
      then show ?thesis using lst ne by (simp add: last_conv_nth)
    qed
  qed
  have sg: "\<forall>j. Suc j < length ?df' \<longrightarrow> signal (?df' ! j) = signal (df ! j)"
    using nth len by simp
  show "run_backtest ib c ?df' ps = run_backtest ib c df ps"
    using len cl sg by (rule run_backtest_cong)
qed

text \<open>C4 at the five-bar scenario and a frame that differs from it in the signal of bar 2
  and in everything after bar 2; and with the signal of the final bar replaced.\<close>

theorem C4_no_look_ahead_witness:
  "trades_at 10000 0 1
      [\<lparr>index = 0, close = 100, signal = 0\<rparr>, \<lparr>index = 1, close = 100, signal = 1\<rparr>,
       \<lparr>index = 2, close = 105, signal = 0\<rparr>, \<lparr>index = 3, close = 105, signal = - 1\<rparr>,
       \<lparr>index = 4, close = 95, signal = 0\<rparr>] 2
    = trades_at 10000 0 1
      [\<lparr>index = 0, close = 100, signal = 0\<rparr>, \<lparr>index = 1, close = 100, signal = 1\<rparr>,
       \<lparr>index = 2, close = 105, signal = - 1\<rparr>, \<lparr>index = 3, close = 300, signal = 1\<rparr>,
       \<lparr>index = 4, close = 1, signal = 1\<rparr>] 2
   \<and> run_backtest 10000 0
      [\<lparr>index = 0, close = 100, signal = 0\<rparr>, \<lparr>index = 1, close = 100, signal = 1\<rparr>,
       \<lparr>index = 2, close = 105, signal = 0\<rparr>, \<lparr>index = 3, close = 105, signal = - 1\<rparr>,
       \<lparr>index = 4, close = 95, signal = 1\<rparr>] 1
    = run_backtest 10000 0
      [\<lparr>index = 0, close = 100, signal = 0\<rparr>, \<lparr>index = 1, close = 100, signal = 1\<rparr>,
       \<lparr>index = 2, close = 105, signal = 0\<rparr>, \<lparr>index = 3, close = 105, signal = - 1\<rparr>,
       \<lparr>index = 4, close = 95, signal = 0\<rparr>] 1"
proof -
  let ?df = "[\<lparr>index = 0, close = 100, signal = 0\<rparr>, \<lparr>index = 1, close = 100, signal = 1\<rparr>,
       \<lparr>index = 2, close = 105, signal = 0\<rparr>, \<lparr>index = 3, close = 105, signal = - 1\<rparr>,
       \<lparr>index = 4, close = 95, signal = 0\<rparr>]"
  let ?df' = "[\<lparr>index = 0, close = 100, signal = 0\<rparr>, \<lparr>index = 1, close = 100, signal = 1\<rparr>,
       \<lparr>index = 2, close = 105, signal = - 1\<rparr>, \<lparr>index = 3, close = 300, signal = 1\<rparr>,
       \<lparr>index = 4, close = 1, signal = 1\<rparr>]"
  have h1: "\<forall>j\<le>2. close (?df ! j) = close (?df' ! j) \<and> index (?df ! j) = index (?df' ! j)"
    by (auto simp add: nth_Cons' le_Suc_eq numeral_2_eq_2)
  have h2: "\<forall>j<2. signal (?df ! j) = signal (?df' ! j)"
    by (auto simp add: nth_Cons' less_Suc_eq numeral_2_eq_2)
  show ?thesis
    using h1 h2 C4_no_look_ahead [of 2 ?df ?df' 10000 0 1 1] by simp
qed

section \<open>One position at a time\<close>

text \<open>
  C5. At a bar whose lagged signal is Buy while a position is held, Sell while the
  position is zero, or neither 1 nor -1 (Hold), no trade is recorded and the cash balance
  and the position stay as they are. Consequently, in the log of every result, an entry
  Buy that opened a position (quantity above zero) is directly followed by a Sell, if by
  anything: no Buy is recorded between a position's entry and its exit.
\<close>

theorem C5_single_position:
  assumes "run_backtest ib c df ps = Inr r"
  shows "(\<forall>i. 1 \<le> i \<and> i < length df
            \<and> ((signal (df ! (i - 1)) = 1 \<and> fgt0 (position (sim_upto ib c ps df i)))
               \<or> (signal (df ! (i - 1)) = - 1 \<and> feq0 (position (sim_upto ib c ps df i)))
               \<or> (signal (df ! (i - 1)) \<noteq> 1 \<and> signal (df ! (i - 1)) \<noteq> - 1))
          \<longrightarrow> trades_at ib c ps df i = []
            \<and> sim.balance (sim_upto ib c ps df (Suc i)) = sim.balance (sim_upto ib c ps df i)
            \<and> position (sim_upto ib c ps df (Suc i)) = position (sim_upto ib c ps df i))
    \<and> (\<forall>k. Suc k < length (BacktestResult.trades r)
            \<and> type (BacktestResult.trades r ! k) = BUY
            \<and> fgt0 (quantity (BacktestResult.trades r ! k))
          \<longrightarrow> type (BacktestResult.trades r ! Suc k) = SELL)"
proof (intro conjI allI impI)
  fix i
  assume h: "1 \<le> i \<and> i < length df
            \<and> ((signal (df ! (i - 1)) = 1 \<and> fgt0 (position (sim_upto ib c ps df i)))
               \<or> (signal (df ! (i - 1)) = - 1 \<and> feq0 (position (sim_upto ib c ps df i)))
               \<or> (signal (df ! (i - 1)) \<noteq> 1 \<and> signal (df ! (i - 1)) \<noteq> - 1))"
  have "\<not> (signal (df ! (i - 1)) = 1 \<and> feq0 (position (sim_upto ib c ps df i)))"
    "\<not> (signal (df ! (i - 1)) = - 1 \<and> fgt0 (position (sim_upto ib c ps df i)))"
    using h feq0_not_fgt0 by auto
  then have e: "execute_trades c ps df (sim_upto ib c ps df i) i = sim_upto ib c ps df i"
    by (rule execute_trades_none)
  from h have i: "1 \<le> i" by simp
  show "trades_at ib c ps df i = []"
    by (simp add: trades_at_def sim_upto_Suc_fields [OF i] e)
  show "sim.balance (sim_upto ib c ps df (Suc i)) = sim.balance (sim_upto ib c ps df i)"
    by (simp add: sim_upto_Suc_fields [OF i] e)
  show "position (sim_upto ib c ps df (Suc i)) = position (sim_upto ib c ps df i)"
    by (simp add: sim_upto_Suc_fields [OF i] e)
next
  fix k
  assume h: "Suc k < length (BacktestResult.trades r)
            \<and> type (BacktestResult.trades r ! k) = BUY
            \<and> fgt0 (quantity (BacktestResult.trades r ! k))"
  have t: "BacktestResult.trades r = sim.trades (sim_upto ib c ps df (length df))"
    using run_backtest_trades [OF assms] by (simp add: simulate_def)
  show "type (BacktestResult.trades r ! Suc k) = SELL"
    unfolding t by (rule buy_followed_by_sell) (use h t in simp_all)
qed

text \<open>C5 at a frame with a Sell signal while flat (bar 1), a Buy signal while holding
  (bar 3) and a Hold (bar 4): bar 3 records nothing and keeps the position of 100, and the
  log is one Buy and one Sell.\<close>

theorem C5_single_position_witness:
  "trades_at 10000 0 1
      [\<lparr>index = 0, close = 100, signal = - 1\<rparr>, \<lparr>index = 1, close = 100, signal = 1\<rparr>,
       \<lparr>index = 2, close = 100, signal = 1\<rparr>, \<lparr>index = 3, close = 100, signal = 0\<rparr>,
       \<lparr>index = 4, close = 100, signal = - 1\<rparr>, \<lparr>index = 5, close = 100, signal = 0\<rparr>] 3 = []
   \<and> position (sim_upto 10000 0 1
      [\<lparr>index = 0, close = 100, signal = - 1\<rparr>, \<lparr>index = 1, close = 100, signal = 1\<rparr>,
       \<lparr>index = 2, close = 100, signal = 1\<rparr>, \<lparr>index = 3, close = 100, signal = 0\<rparr>,
       \<lparr>index = 4, close = 100, signal = - 1\<rparr>, \<lparr>index = 5, close = 100, signal = 0\<rparr>] 4) = Fin 100
   \<and> map type (BacktestResult.trades (projr (run_backtest 10000 0
      [\<lparr>index = 0, close = 100, signal = - 1\<rparr>, \<lparr>index = 1, close = 100, signal = 1\<rparr>,
       \<lparr>index = 2, close = 100, signal = 1\<rparr>, \<lparr>index = 3, close = 100, signal = 0\<rparr>,
       \<lparr>index = 4, close = 100, signal = - 1\<rparr>, \<lparr>index = 5, close = 100, signal = 0\<rparr>] 1)))
     = [BUY, SELL]"
proof -
  let ?df = "[\<lparr>index = 0, close = 100, signal = - 1\<rparr>, \<lparr>index = 1, close = 100, signal = 1\<rparr>,
       \<lparr>index = 2, close = 100, signal = 1\<rparr>, \<lparr>index = 3, close = 100, signal = 0\<rparr>,
       \<lparr>index = 4, close = 100, signal = - 1\<rparr>, \<lparr>index = 5, close = 100, signal = 0\<rparr>]"
  let ?r = "projr (run_backtest 10000 0 ?df 1)"
  have run: "run_backtest 10000 0 ?df 1 = Inr ?r"
    by (rule Inr_projr) (simp add: run_backtest_isl)
  note th = C5_single_position [OF run]
  have p3: "position (sim_upto 10000 0 1 ?df 3) = Fin 100"
    by (simp add: eval_simps)
  have "1 \<le> (3::nat) \<and> 3 < length ?df
      \<and> ((signal (?df ! (3 - 1)) = 1 \<and> fgt0 (position (sim_upto 10000 0 1 ?df 3)))
         \<or> (signal (?df ! (3 - 1)) = - 1 \<and> feq0 (position (sim_upto 10000 0 1 ?df 3)))
         \<or> (signal (?df ! (3 - 1)) \<noteq> 1 \<and> signal (?df ! (3 - 1)) \<noteq> - 1))"
    by (simp add: p3)
  with th have a: "trades_at 10000 0 1 ?df 3 = []
      \<and> position (sim_upto 10000 0 1 ?df (Suc 3)) = position (sim_upto 10000 0 1 ?df 3)"
    by blast
  have s4: "Suc 3 = 4" by simp
  have tr: "BacktestResult.trades ?r
      = [\<lparr>timestamp = 2, type = BUY, price = 100, quantity = Fin 100, balance = Fin 0\<rparr>,
         \<lparr>timestamp = 5, type = SELL, price = 100, quantity = Fin 100, balance = Fin 10000\<rparr>]"
    by (simp add: eval_simps)
  show ?thesis using a p3 by (simp add: s4 tr)
qed

section \<open>Forced liquidation\<close>

text \<open>
  C6. When the position is above zero after the last bar, the run returns a result whose
  final balance is the cash balance plus \<open>position * last_close - position * last_close *
  commission\<close> (the formula of the Sell branch, at the close of the last bar), and whose
  final equity point is that final balance; the equity curve keeps one point per bar and
  its other points are untouched.
\<close>

theorem C6_forced_liquidation:
  assumes "fgt0 (position (simulate ib c ps df))"
  shows "\<exists>r. run_backtest ib c df ps = Inr r
     \<and> final_balance r =
         fadd (sim.balance (simulate ib c ps df))
           (fsub (fmul (position (simulate ib c ps df)) (Fin (close (last df))))
                 (fmul (fmul (position (simulate ib c ps df)) (Fin (close (last df)))) (Fin c)))
     \<and> last (BacktestResult.equity_curve r) = final_balance r
     \<and> length (BacktestResult.equity_curve r) = length df
     \<and> butlast (BacktestResult.equity_curve r) = butlast (sim.equity_curve (simulate ib c ps df))"
proof -
  let ?st = "simulate ib c ps df"
  have ne: "df \<noteq> []" using assms by (rule fgt0_simulate_nonempty)
  have len: "length (sim.equity_curve ?st) = length df"
    using ne length_equity_sim_upto [of ib c ps df "length df"]
    by (cases df) (simp_all add: simulate_def)
  then have eq_ne: "sim.equity_curve ?st \<noteq> []" using ne by auto
  show ?thesis
    using assms ne len eq_ne
    by (simp add: run_backtest_def close_open_position_def Let_def last_list_update
        butlast_list_update balance_is_python_def)
qed

text \<open>C6 at a three-bar frame: half of 10000 bought at 100 with 1 percent commission and
  held to the end at 110; the mark-to-market point 10450 is overwritten by the cash
  10395.\<close>

theorem C6_forced_liquidation_witness:
  "fgt0 (position (simulate 10000 (1 / 100) (1 / 2)
      [\<lparr>index = 0, close = 100, signal = 1\<rparr>, \<lparr>index = 1, close = 100, signal = 0\<rparr>,
       \<lparr>index = 2, close = 110, signal = 0\<rparr>]))
   \<and> sim.equity_curve (simulate 10000 (1 / 100) (1 / 2)
      [\<lparr>index = 0, close = 100, signal = 1\<rparr>, \<lparr>index = 1, close = 100, signal = 0\<rparr>,
       \<lparr>index = 2, close = 110, signal = 0\<rparr>]) = [Fin 10000, Fin 9950, Fin 10450]
   \<and> (\<exists>r. run_backtest 10000 (1 / 100)
      [\<lparr>index = 0, close = 100, signal = 1\<rparr>, \<lparr>index = 1, close = 100, signal = 0\<rparr>,
       \<lparr>index = 2, close = 110, signal = 0\<rparr>] (1 / 2) = Inr r
      \<and> final_balance r = Fin 10395
      \<and> BacktestResult.equity_curve r = [Fin 10000, Fin 9950, Fin 10395])"
proof -
  let ?df = "[\<lparr>index = 0, close = 100, signal = 1\<rparr>, \<lparr>index = 1, close = 100, signal = 0\<rparr>,
       \<lparr>index = 2, close = 110, signal = 0\<rparr>]"
  have st: "simulate 10000 (1 / 100) (1 / 2) ?df
     = \<lparr>balance = Fin 4950, position = Fin 50,
        trades = [\<lparr>timestamp = 1, type = BUY, price = 100, quantity = Fin 50, balance = Fin 4950\<rparr>],
        equity_curve = [Fin 10000, Fin 9950, Fin 10450]\<rparr>"
    by (simp add: eval_simps)
  have pos: "fgt0 (position (simulate 10000 (1 / 100) (1 / 2) ?df))"
    by (simp add: st)
  obtain r where r: "run_backtest 10000 (1 / 100) ?df (1 / 2) = Inr r"
    "final_balance r =
         fadd (sim.balance (simulate 10000 (1 / 100) (1 / 2) ?df))
           (fsub (fmul (position (simulate 10000 (1 / 100) (1 / 2) ?df)) (Fin (close (last ?df))))
                 (fmul (fmul (position (simulate 10000 (1 / 100) (1 / 2) ?df)) (Fin (close (last ?df)))) (Fin (1 / 100))))"
    "last (BacktestResult.equity_curve r) = final_balance r"
    "length (BacktestResult.equity_curve r) = length ?df"
    "butlast (BacktestResult.equity_curve r) = butlast (sim.equity_curve (simulate 10000 (1 / 100) (1 / 2) ?df))"
    using C6_forced_liquidation [OF pos] by blast
  have fb: "final_balance r = Fin 10395"
    using r(2) by (simp add: st fsub_def)
  have "BacktestResult.equity_curve r \<noteq> []" using r(4) by auto
  then have "BacktestResult.equity_curve r
      = butlast (BacktestResult.equity_curve r) @ [last (BacktestResult.equity_curve r)]"
    by simp
  then have "BacktestResult.equity_curve r = [Fin 10000, Fin 9950, Fin 10395]"
    using r(3,5) fb by (simp add: st)
  with r(1) fb pos show ?thesis by (auto simp add: st)
qed

text \<open>
  C10. When the position is above zero after the last bar, the forced close changes the
  balance and the final equity point only: the log of the result is the log of the loop
  (the trades of the iterations), \<open>total_trades\<close> is its length, and its last entry is
  the Buy that opened the position, although the final balance is the final equity point,
  all cash.
\<close>

theorem C10_forced_close_not_logged:
  assumes "fgt0 (position (simulate ib c ps df))"
  shows "\<exists>r. run_backtest ib c df ps = Inr r
     \<and> BacktestResult.trades r = sim.trades (simulate ib c ps df)
     \<and> BacktestResult.trades r = concat (map (trades_at ib c ps df) [1..<length df])
     \<and> total_trades r = length (concat (map (trades_at ib c ps df) [1..<length df]))
     \<and> BacktestResult.trades r \<noteq> []
     \<and> type (last (BacktestResult.trades r)) = BUY
     \<and> final_balance r = last (BacktestResult.equity_curve r)
     \<and> final_balance r =
         fadd (sim.balance (simulate ib c ps df))
           (fsub (fmul (position (simulate ib c ps df)) (Fin (close (last df))))
                 (fmul (fmul (position (simulate ib c ps df)) (Fin (close (last df)))) (Fin c)))"
proof -
  let ?st = "simulate ib c ps df"
  have ne: "df \<noteq> []" using assms by (rule fgt0_simulate_nonempty)
  have len: "length (sim.equity_curve ?st) = length df"
    using ne length_equity_sim_upto [of ib c ps df "length df"]
    by (cases df) (simp_all add: simulate_def)
  then have eq_ne: "sim.equity_curve ?st \<noteq> []" using ne by auto
  have pos: "position ?st = open_quantity (sim.trades ?st)"
    by (simp add: simulate_def position_sim_upto)
  have tne: "sim.trades ?st \<noteq> []"
    using assms pos by (auto simp add: open_quantity_def)
  have buy: "type (last (sim.trades ?st)) = BUY"
    using assms pos tne by (auto simp add: open_quantity_def split: if_splits)
  have cat: "sim.trades ?st = concat (map (trades_at ib c ps df) [1..<length df])"
    by (simp add: simulate_def trades_sim_upto)
  show ?thesis
    using assms ne len eq_ne tne buy cat [symmetric]
    by (simp add: run_backtest_def close_open_position_def Let_def last_list_update
        balance_is_python_def)
qed

text \<open>C10 at the two-bar frame of C1: one Buy in the log, one trade counted, and a final
  balance of 9980 that is the final equity point.\<close>

theorem C10_forced_close_not_logged_witness:
  "fgt0 (position (simulate 10000 (1 / 1000) 1
      [\<lparr>index = 0, close = 100, signal = 1\<rparr>, \<lparr>index = 1, close = 100, signal = 0\<rparr>]))
   \<and> (\<exists>r. run_backtest 10000 (1 / 1000)
      [\<lparr>index = 0, close = 100, signal = 1\<rparr>, \<lparr>index = 1, close = 100, signal = 0\<rparr>] 1 = Inr r
      \<and> BacktestResult.trades r
          = [\<lparr>timestamp = 1, type = BUY, price = 100, quantity = Fin 100, balance = Fin (- 10)\<rparr>]
      \<and> total_trades r = 1
      \<and> final_balance r = Fin 9980
      \<and> BacktestResult.equity_curve r = [Fin 10000, Fin 9980])"
proof -
  let ?df = "[\<lparr>index = 0, close = 100, signal = 1\<rparr>, \<lparr>index = 1, close = 100, signal = 0\<rparr>]"
  have st: "simulate 10000 (1 / 1000) 1 ?df
     = \<lparr>balance = Fin (- 10), position = Fin 100,
        trades = [\<lparr>timestamp = 1, type = BUY, price = 100, quantity = Fin 100, balance = Fin (- 10)\<rparr>],
        equity_curve = [Fin 10000, Fin 9990]\<rparr>"
    by (simp add: eval_simps)
  have pos: "fgt0 (position (simulate 10000 (1 / 1000) 1 ?df))"
    by (simp add: st)
  obtain r where r: "run_backtest 10000 (1 / 1000) ?df 1 = Inr r"
    "BacktestResult.trades r = sim.trades (simulate 10000 (1 / 1000) 1 ?df)"
    "total_trades r = length (concat (map (trades_at 10000 (1 / 1000) 1 ?df) [1..<length ?df]))"
    "BacktestResult.trades r = concat (map (trades_at 10000 (1 / 1000) 1 ?df) [1..<length ?df])"
    "final_balance r = last (BacktestResult.equity_curve r)"
    "final_balance r =
         fadd (sim.balance (simulate 10000 (1 / 1000) 1 ?df))
           (fsub (fmul (position (simulate 10000 (1 / 1000) 1 ?df)) (Fin (close (last ?df))))
                 (fmul (fmul (position (simulate 10000 (1 / 1000) 1 ?df)) (Fin (close (last ?df)))) (Fin (1 / 1000))))"
    using C10_forced_close_not_logged [OF pos] by blast
  have fb: "final_balance r = Fin 9980"
    using r(6) by (simp add: st fsub_def)
  have tr: "BacktestResult.trades r
      = [\<lparr>timestamp = 1, type = BUY, price = 100, quantity = Fin 100, balance = Fin (- 10)\<rparr>]"
    using r(2) by (simp add: st)
  have tt: "total_trades r = 1"
    using r(3) r(4) [symmetric] by (simp add: tr)
  have "run_backtest 10000 (1 / 1000) ?df 1 = Inr r" by (rule r(1))
  then have "BacktestResult.equity_curve r = [Fin 10000, Fin 9980]"
    by (auto simp add: eval_simps)
  with r(1) fb tr tt pos show ?thesis by auto
qed

section \<open>Maximum drawdown\<close>

text \<open>
  C7. The claim is that the maximum drawdown is \<open>abs (min drawdown) * 100\<close> over the
  cumulative product of the returns and its running maximum, and is 0 whenever the return
  series is empty. Lines 125 to 128 compute the formula with no test for an empty series
  (the Sharpe ratio, three lines above, has one): on a one-bar frame the return series is
  empty, the minimum of the empty drawdown series is NaN, and the result carries a maximum
  drawdown of NaN next to a Sharpe ratio of 0.
\<close>

theorem C7_max_drawdown_of_empty_returns:
  "\<not> isl (run_backtest 10000 (1 / 1000) [\<lparr>index = 0, close = 100, signal = 0\<rparr>] 1)
   \<and> dropna (pct_change (BacktestResult.equity_curve (projr
        (run_backtest 10000 (1 / 1000) [\<lparr>index = 0, close = 100, signal = 0\<rparr>] 1)))) = []
   \<and> max_drawdown (projr
        (run_backtest 10000 (1 / 1000) [\<lparr>index = 0, close = 100, signal = 0\<rparr>] 1)) = NaN
   \<and> sharpe_ratio (projr
        (run_backtest 10000 (1 / 1000) [\<lparr>index = 0, close = 100, signal = 0\<rparr>] 1)) = Fin 0
   \<and> max_drawdown_of [] = NaN"
  by (simp add: eval_simps pct_change_def dropna_def max_drawdown_of_def drawdown_series_def
      cumprod_def expanding_max_def series_min_def sharpe_def)

text \<open>
  The first part of the claim holds: the maximum drawdown of a result is the function of
  lines 125 to 128 of its returns, and on a finite series that is not empty and whose
  running maximum is never zero that function is the formula of the claim.
\<close>

lemma run_backtest_max_drawdown:
  assumes "run_backtest ib c df ps = Inr r"
    "dropna (pct_change (BacktestResult.equity_curve r)) = map Fin rs"
    "rs \<noteq> []" "\<forall>i<length rs. running_max rs i \<noteq> 0"
  shows "max_drawdown r = Fin (spec_max_drawdown rs)"
proof -
  have "max_drawdown r = max_drawdown_of (dropna (pct_change (BacktestResult.equity_curve r)))"
    using assms(1)
    by (auto simp add: run_backtest_def Let_def split: sum.splits if_splits)
  then show ?thesis
    using assms(2) max_drawdown_of_Fin [OF assms(3,4)] by simp
qed

section \<open>Sharpe ratio\<close>



section \<open>Win rate\<close>

text \<open>
  C9. The claim is that the win rate pairs each Buy with the earliest Sell whose timestamp
  is later, with each Sell matched to at most one Buy. Lines 140 to 145 match every Buy on
  its own against all the Sell rows and keep no record of the Sells already taken, and the
  first row that matches is the first of the log, which the function does not require to
  be in timestamp order. Counterexample: on the index labels 0, 5, 3, 4, 6 the log is a
  Buy at 5, a Sell at 3, a Buy at 4 and a Sell at 6, both Buys take the Sell at 6, and the
  win rate is 50 where the pairing of the claim, with one pair, gives 100. On the labels
  0, 1, 9, 2, 7 both Buys take the Sell at 9, although the Sell at 7 is later than both
  and earlier than 9.
\<close>

theorem C9_sell_matched_twice:
  "map (\<lambda>t. (timestamp t, type t, price t)) (BacktestResult.trades (projr (run_backtest 10000 0
      [\<lparr>index = 0, close = 100, signal = 1\<rparr>, \<lparr>index = 5, close = 100, signal = - 1\<rparr>,
       \<lparr>index = 3, close = 100, signal = 1\<rparr>, \<lparr>index = 4, close = 120, signal = - 1\<rparr>,
       \<lparr>index = 6, close = 110, signal = 0\<rparr>] 1)))
     = [(5, BUY, 100), (3, SELL, 100), (4, BUY, 120), (6, SELL, 110)]
   \<and> map (\<lambda>(b, s). (timestamp b, timestamp s)) (matched_pairs (BacktestResult.trades (projr
      (run_backtest 10000 0
      [\<lparr>index = 0, close = 100, signal = 1\<rparr>, \<lparr>index = 5, close = 100, signal = - 1\<rparr>,
       \<lparr>index = 3, close = 100, signal = 1\<rparr>, \<lparr>index = 4, close = 120, signal = - 1\<rparr>,
       \<lparr>index = 6, close = 110, signal = 0\<rparr>] 1))))
     = [(5, 6), (4, 6)]
   \<and> \<not> distinct (map snd (matched_pairs (BacktestResult.trades (projr (run_backtest 10000 0
      [\<lparr>index = 0, close = 100, signal = 1\<rparr>, \<lparr>index = 5, close = 100, signal = - 1\<rparr>,
       \<lparr>index = 3, close = 100, signal = 1\<rparr>, \<lparr>index = 4, close = 120, signal = - 1\<rparr>,
       \<lparr>index = 6, close = 110, signal = 0\<rparr>] 1)))))
   \<and> win_rate (projr (run_backtest 10000 0
      [\<lparr>index = 0, close = 100, signal = 1\<rparr>, \<lparr>index = 5, close = 100, signal = - 1\<rparr>,
       \<lparr>index = 3, close = 100, signal = 1\<rparr>, \<lparr>index = 4, close = 120, signal = - 1\<rparr>,
       \<lparr>index = 6, close = 110, signal = 0\<rparr>] 1)) = 50
   \<and> spec_win_rate (BacktestResult.trades (projr (run_backtest 10000 0
      [\<lparr>index = 0, close = 100, signal = 1\<rparr>, \<lparr>index = 5, close = 100, signal = - 1\<rparr>,
       \<lparr>index = 3, close = 100, signal = 1\<rparr>, \<lparr>index = 4, close = 120, signal = - 1\<rparr>,
       \<lparr>index = 6, close = 110, signal = 0\<rparr>] 1))) = 100
   \<and> map (\<lambda>(b, s). (timestamp b, timestamp s)) (matched_pairs (BacktestResult.trades (projr
      (run_backtest 10000 0
      [\<lparr>index = 0, close = 100, signal = 1\<rparr>, \<lparr>index = 1, close = 100, signal = - 1\<rparr>,
       \<lparr>index = 9, close = 110, signal = 1\<rparr>, \<lparr>index = 2, close = 100, signal = - 1\<rparr>,
       \<lparr>index = 7, close = 90, signal = 0\<rparr>] 1))))
     = [(1, 9), (2, 9)]
   \<and> map (\<lambda>t. (timestamp t, type t)) (BacktestResult.trades (projr
      (run_backtest 10000 0
      [\<lparr>index = 0, close = 100, signal = 1\<rparr>, \<lparr>index = 1, close = 100, signal = - 1\<rparr>,
       \<lparr>index = 9, close = 110, signal = 1\<rparr>, \<lparr>index = 2, close = 100, signal = - 1\<rparr>,
       \<lparr>index = 7, close = 90, signal = 0\<rparr>] 1)))
     = [(1, BUY), (9, SELL), (2, BUY), (7, SELL)]"
proof -
  let ?df = "[\<lparr>index = 0, close = 100, signal = 1\<rparr>, \<lparr>index = 5, close = 100, signal = - 1\<rparr>,
       \<lparr>index = 3, close = 100, signal = 1\<rparr>, \<lparr>index = 4, close = 120, signal = - 1\<rparr>,
       \<lparr>index = 6, close = 110, signal = 0\<rparr>]"
  let ?dg = "[\<lparr>index = 0, close = 100, signal = 1\<rparr>, \<lparr>index = 1, close = 100, signal = - 1\<rparr>,
       \<lparr>index = 9, close = 110, signal = 1\<rparr>, \<lparr>index = 2, close = 100, signal = - 1\<rparr>,
       \<lparr>index = 7, close = 90, signal = 0\<rparr>]"
  have tr: "BacktestResult.trades (projr (run_backtest 10000 0 ?df 1))
      = [\<lparr>timestamp = 5, type = BUY, price = 100, quantity = Fin 100, balance = Fin 0\<rparr>,
         \<lparr>timestamp = 3, type = SELL, price = 100, quantity = Fin 100, balance = Fin 10000\<rparr>,
         \<lparr>timestamp = 4, type = BUY, price = 120, quantity = Fin (250 / 3), balance = Fin 0\<rparr>,
         \<lparr>timestamp = 6, type = SELL, price = 110, quantity = Fin (250 / 3), balance = Fin (27500 / 3)\<rparr>]"
    by (simp add: eval_simps)
  have tg: "BacktestResult.trades (projr (run_backtest 10000 0 ?dg 1))
      = [\<lparr>timestamp = 1, type = BUY, price = 100, quantity = Fin 100, balance = Fin 0\<rparr>,
         \<lparr>timestamp = 9, type = SELL, price = 110, quantity = Fin 100, balance = Fin 11000\<rparr>,
         \<lparr>timestamp = 2, type = BUY, price = 100, quantity = Fin 110, balance = Fin 0\<rparr>,
         \<lparr>timestamp = 7, type = SELL, price = 90, quantity = Fin 110, balance = Fin 9900\<rparr>]"
    by (simp add: eval_simps)
  have wr: "win_rate (projr (run_backtest 10000 0 ?df 1)) = 50"
    by (simp add: eval_simps win_rate_of_def profits_of_def matching_sells_def profit_def)
  show ?thesis
    by (simp only: tr tg wr)
      (simp add: matched_pairs_def matching_sells_def spec_win_rate_def profit_def)
qed

text \<open>
  C9, amended. The pairs of the win rate are these: every Buy of the log that has a Sell
  with a later timestamp, in the order of the log, with the first Sell of the log whose
  timestamp is later (the Buys are matched one by one, so a Sell can serve several of
  them). The profit of a pair is \<open>(sell_price - buy_price) / buy_price\<close>, the win rate is
  the share of pairs with a profit above zero times 100, and it is 0 when there is no
  pair: no Buy, no Sell, or no Sell after any Buy. On a frame whose index labels increase
  strictly, the Sell of a pair is also the earliest by timestamp.
\<close>

theorem C9_win_rate_pairs:
  assumes "run_backtest ib c df ps = Inr r"
  shows "matched_pairs (BacktestResult.trades r) =
      map (\<lambda>b. (b, hd (matching_sells (filter (\<lambda>t. type t = SELL) (BacktestResult.trades r)) b)))
        (filter (\<lambda>b. type b = BUY
            \<and> matching_sells (filter (\<lambda>t. type t = SELL) (BacktestResult.trades r)) b \<noteq> [])
          (BacktestResult.trades r))
    \<and> (\<forall>(b, s)\<in>set (matched_pairs (BacktestResult.trades r)).
          type b = BUY \<and> type s = SELL \<and> timestamp b < timestamp s
          \<and> (\<exists>ss. filter (\<lambda>x. type x = SELL \<and> timestamp b < timestamp x) (BacktestResult.trades r)
                 = s # ss)
          \<and> (price b \<noteq> 0 \<longrightarrow> profit b s = Fin ((price s - price b) / price b)))
    \<and> win_rate r =
      (if matched_pairs (BacktestResult.trades r) = [] then 0
       else real (length (filter (\<lambda>(b, s). fgt0 (profit b s)) (matched_pairs (BacktestResult.trades r))))
              / real (length (matched_pairs (BacktestResult.trades r))) * 100)
    \<and> (filter (\<lambda>t. type t = BUY) (BacktestResult.trades r) = []
        \<or> filter (\<lambda>t. type t = SELL) (BacktestResult.trades r) = []
        \<or> matched_pairs (BacktestResult.trades r) = [] \<longrightarrow> win_rate r = 0)
    \<and> (sorted_wrt (<) (map index df) \<longrightarrow>
         (\<forall>(b, s)\<in>set (matched_pairs (BacktestResult.trades r)).
            \<forall>s'\<in>set (BacktestResult.trades r).
              type s' = SELL \<and> timestamp b < timestamp s' \<longrightarrow> timestamp s \<le> timestamp s'))"
proof -
  let ?T = "BacktestResult.trades r"
  have form: "matched_pairs ?T =
      map (\<lambda>b. (b, hd (matching_sells (filter (\<lambda>t. type t = SELL) ?T) b)))
        (filter (\<lambda>b. type b = BUY \<and> matching_sells (filter (\<lambda>t. type t = SELL) ?T) b \<noteq> []) ?T)"
    by (rule matched_pairs_closed_form)
  have first: "\<forall>(b, s)\<in>set (matched_pairs ?T).
          type b = BUY \<and> type s = SELL \<and> timestamp b < timestamp s
          \<and> (\<exists>ss. filter (\<lambda>x. type x = SELL \<and> timestamp b < timestamp x) ?T = s # ss)
          \<and> (price b \<noteq> 0 \<longrightarrow> profit b s = Fin ((price s - price b) / price b))"
  proof (intro ballI, clarify)
    fix b s assume "(b, s) \<in> set (matched_pairs ?T)"
    then obtain ss where b: "type b = BUY"
      and f: "filter (\<lambda>x. timestamp b < timestamp x) (filter (\<lambda>t. type t = SELL) ?T) = s # ss"
      using matched_pairs_sound by blast
    have "s \<in> set (filter (\<lambda>x. timestamp b < timestamp x) (filter (\<lambda>t. type t = SELL) ?T))"
      using f by simp
    then have s: "type s = SELL" "timestamp b < timestamp s" by auto
    have "filter (\<lambda>x. type x = SELL \<and> timestamp b < timestamp x) ?T = s # ss"
      using f by (simp add: conj_commute)
    then show "type b = BUY \<and> type s = SELL \<and> timestamp b < timestamp s
          \<and> (\<exists>ss. filter (\<lambda>x. type x = SELL \<and> timestamp b < timestamp x) ?T = s # ss)
          \<and> (price b \<noteq> 0 \<longrightarrow> profit b s = Fin ((price s - price b) / price b))"
      using b s by (simp add: profit_def)
  qed
  have wr: "win_rate r =
      (if matched_pairs ?T = [] then 0
       else real (length (filter (\<lambda>(b, s). fgt0 (profit b s)) (matched_pairs ?T)))
              / real (length (matched_pairs ?T)) * 100)"
    using run_backtest_win_rate [OF assms] by (simp only: win_rate_of_pairs)
  have zero: "filter (\<lambda>t. type t = BUY) ?T = [] \<or> filter (\<lambda>t. type t = SELL) ?T = []
        \<or> matched_pairs ?T = [] \<longrightarrow> win_rate r = 0"
    using wr matched_pairs_no_buys matched_pairs_no_sells by auto
  have early: "sorted_wrt (<) (map index df) \<longrightarrow>
         (\<forall>(b, s)\<in>set (matched_pairs ?T).
            \<forall>s'\<in>set ?T. type s' = SELL \<and> timestamp b < timestamp s' \<longrightarrow> timestamp s \<le> timestamp s')"
  proof
    assume srt: "sorted_wrt (<) (map index df)"
    have T: "?T = sim.trades (sim_upto ib c ps df (length df))"
      using run_backtest_trades [OF assms] by (simp add: simulate_def)
    have st: "sorted_wrt (<) (map timestamp ?T)"
      unfolding T using timestamps_sim_upto [OF srt, of "length df" ib c ps] by simp
    show "\<forall>(b, s)\<in>set (matched_pairs ?T).
            \<forall>s'\<in>set ?T. type s' = SELL \<and> timestamp b < timestamp s' \<longrightarrow> timestamp s \<le> timestamp s'"
      using matched_pairs_earliest [OF st] by blast
  qed
  show ?thesis
    using form first wr zero early by blast
qed

text \<open>C9, amended, at a run with two round trips on increasing labels, bought at 100 and
  sold at 110, bought at 100 and sold at 90: two pairs, a win rate of 50; and at a run
  whose log holds one Buy and no Sell: a win rate of 0.\<close>

theorem C9_win_rate_pairs_witness:
  "sorted_wrt (<) (map index
      [\<lparr>index = 0, close = 100, signal = 1\<rparr>, \<lparr>index = 1, close = 100, signal = - 1\<rparr>,
       \<lparr>index = 2, close = 110, signal = 1\<rparr>, \<lparr>index = 3, close = 100, signal = - 1\<rparr>,
       \<lparr>index = 4, close = 90, signal = 0\<rparr>])
   \<and> map (\<lambda>t. (timestamp t, type t, price t)) (BacktestResult.trades (projr (run_backtest 10000 0
      [\<lparr>index = 0, close = 100, signal = 1\<rparr>, \<lparr>index = 1, close = 100, signal = - 1\<rparr>,
       \<lparr>index = 2, close = 110, signal = 1\<rparr>, \<lparr>index = 3, close = 100, signal = - 1\<rparr>,
       \<lparr>index = 4, close = 90, signal = 0\<rparr>] 1)))
     = [(1, BUY, 100), (2, SELL, 110), (3, BUY, 100), (4, SELL, 90)]
   \<and> map (\<lambda>(b, s). (timestamp b, timestamp s, profit b s)) (matched_pairs (BacktestResult.trades
      (projr (run_backtest 10000 0
      [\<lparr>index = 0, close = 100, signal = 1\<rparr>, \<lparr>index = 1, close = 100, signal = - 1\<rparr>,
       \<lparr>index = 2, close = 110, signal = 1\<rparr>, \<lparr>index = 3, close = 100, signal = - 1\<rparr>,
       \<lparr>index = 4, close = 90, signal = 0\<rparr>] 1))))
     = [(1, 2, Fin (1 / 10)), (3, 4, Fin (- (1 / 10)))]
   \<and> win_rate (projr (run_backtest 10000 0
      [\<lparr>index = 0, close = 100, signal = 1\<rparr>, \<lparr>index = 1, close = 100, signal = - 1\<rparr>,
       \<lparr>index = 2, close = 110, signal = 1\<rparr>, \<lparr>index = 3, close = 100, signal = - 1\<rparr>,
       \<lparr>index = 4, close = 90, signal = 0\<rparr>] 1)) = 50
   \<and> win_rate (projr (run_backtest 10000 (1 / 1000)
      [\<lparr>index = 0, close = 100, signal = 1\<rparr>, \<lparr>index = 1, close = 100, signal = 0\<rparr>] 1)) = 0"
proof -
  let ?df = "[\<lparr>index = 0, close = 100, signal = 1\<rparr>, \<lparr>index = 1, close = 100, signal = - 1\<rparr>,
       \<lparr>index = 2, close = 110, signal = 1\<rparr>, \<lparr>index = 3, close = 100, signal = - 1\<rparr>,
       \<lparr>index = 4, close = 90, signal = 0\<rparr>]"
  let ?r = "projr (run_backtest 10000 0 ?df 1)"
  let ?dg = "[\<lparr>index = 0, close = 100, signal = 1\<rparr>, \<lparr>index = 1, close = 100, signal = 0\<rparr>]"
  let ?q = "projr (run_backtest 10000 (1 / 1000) ?dg 1)"
  have run: "run_backtest 10000 0 ?df 1 = Inr ?r"
    by (rule Inr_projr) (simp add: run_backtest_isl)
  have run': "run_backtest 10000 (1 / 1000) ?dg 1 = Inr ?q"
    by (rule Inr_projr) (simp add: run_backtest_isl)
  have srt: "sorted_wrt (<) (map index ?df)" by simp
  have tr: "BacktestResult.trades ?r
      = [\<lparr>timestamp = 1, type = BUY, price = 100, quantity = Fin 100, balance = Fin 0\<rparr>,
         \<lparr>timestamp = 2, type = SELL, price = 110, quantity = Fin 100, balance = Fin 11000\<rparr>,
         \<lparr>timestamp = 3, type = BUY, price = 100, quantity = Fin 110, balance = Fin 0\<rparr>,
         \<lparr>timestamp = 4, type = SELL, price = 90, quantity = Fin 110, balance = Fin 9900\<rparr>]"
    by (simp add: eval_simps)
  have pairs: "matched_pairs (BacktestResult.trades ?r)
      = [(\<lparr>timestamp = 1, type = BUY, price = 100, quantity = Fin 100, balance = Fin 0\<rparr>,
          \<lparr>timestamp = 2, type = SELL, price = 110, quantity = Fin 100, balance = Fin 11000\<rparr>),
         (\<lparr>timestamp = 3, type = BUY, price = 100, quantity = Fin 110, balance = Fin 0\<rparr>,
          \<lparr>timestamp = 4, type = SELL, price = 90, quantity = Fin 110, balance = Fin 9900\<rparr>)]"
    by (simp only: tr) (simp add: matched_pairs_def matching_sells_def)
  have "win_rate ?r =
      (if matched_pairs (BacktestResult.trades ?r) = [] then 0
       else real (length (filter (\<lambda>(b, s). fgt0 (profit b s)) (matched_pairs (BacktestResult.trades ?r))))
              / real (length (matched_pairs (BacktestResult.trades ?r))) * 100)"
    using C9_win_rate_pairs [OF run] by blast
  then have w: "win_rate ?r = 50"
    by (simp only: pairs) (simp add: profit_def)
  have tq: "BacktestResult.trades ?q
      = [\<lparr>timestamp = 1, type = BUY, price = 100, quantity = Fin 100, balance = Fin (- 10)\<rparr>]"
    by (simp add: eval_simps)
  have "filter (\<lambda>t. type t = SELL) (BacktestResult.trades ?q) = []"
    by (simp add: tq)
  then have z: "win_rate ?q = 0"
    using C9_win_rate_pairs [OF run'] by blast
  have p: "map (\<lambda>(b, s). (timestamp b, timestamp s, profit b s))
        (matched_pairs (BacktestResult.trades ?r))
      = [(1, 2, Fin (1 / 10)), (3, 4, Fin (- (1 / 10)))]"
    by (simp only: pairs) (simp add: profit_def)
  have t: "map (\<lambda>t. (timestamp t, type t, price t)) (BacktestResult.trades ?r)
      = [(1, BUY, 100), (2, SELL, 110), (3, BUY, 100), (4, SELL, 90)]"
    by (simp only: tr) simp
  show ?thesis
    using srt t p w z by blast
qed

end
